theory Spec2Isabelle
  imports Complex_Main
begin

text \<open>
  The data loaders of \<^verbatim>\<open>src/loader.py\<close>: the filter \<^verbatim>\<open>drop_entry\<close>, the dataset class
  \<^verbatim>\<open>SentimentDataset\<close> with its constructor and \<^verbatim>\<open>__getitem__\<close>, the two collators
  \<^verbatim>\<open>_process_1\<close> and \<^verbatim>\<open>_process_2\<close> of the continuous family, and the collator
  \<^verbatim>\<open>collate_fn\<close> of the discrete family. Every function is a function of HOL with the
  source's name; an exception is a value \<open>Inl e\<close> of the result, a returned value is
  \<open>Inr v\<close>. The operations of numpy and torch that the code calls are written out for
  the shapes the code uses them on.
\<close>

section \<open>Array elements\<close>

text \<open>
  The arrays of \<^verbatim>\<open>loader.py\<close> hold floating-point numbers. An element is modelled as an
  exact real or one of the three special values of IEEE arithmetic; rounding is not
  modelled. Negative infinity has to be a value of its own, since the constructor of
  \<^verbatim>\<open>SentimentDataset\<close> tests for it, and NaN, since \<^verbatim>\<open>k.sum() == 0\<close> is false on it.
\<close>

datatype fval = Fin real | PInf | NInf | NaN

fun fadd :: "fval \<Rightarrow> fval \<Rightarrow> fval" where
  "fadd (Fin a) (Fin b) = Fin (a + b)"
| "fadd NaN _ = NaN"
| "fadd _ NaN = NaN"
| "fadd PInf NInf = NaN"
| "fadd NInf PInf = NaN"
| "fadd PInf _ = PInf"
| "fadd _ PInf = PInf"
| "fadd NInf _ = NInf"
| "fadd _ NInf = NInf"

section \<open>Two-dimensional arrays\<close>

text \<open>
  A 2-D array or tensor of shape \<open>(T, D)\<close>: \<open>T\<close> rows along the time axis, each of
  \<open>D\<close> features. The width is kept beside the rows, since a tensor of shape \<open>(0, D)\<close>
  still has a width.
\<close>

datatype tensor2 = Tensor2 (ncols: nat) (rows: "fval list list")

definition wf_tensor :: "tensor2 \<Rightarrow> bool" where
  "wf_tensor t = list_all (\<lambda>r. length r = ncols t) (rows t)"

definition size0 :: "tensor2 \<Rightarrow> nat" where
  "size0 t = length (rows t)"

definition elems :: "tensor2 \<Rightarrow> fval list" where
  "elems t = concat (rows t)"


definition all_zero :: "tensor2 \<Rightarrow> bool" where
  "all_zero k = list_all (\<lambda>x. x = Fin 0) (elems k)"

section \<open>Failures\<close>

text \<open>
  The exceptions the modelled code can raise. \<open>SystemExit\<close> is what \<^verbatim>\<open>exit()\<close> raises; it
  carries what \<^verbatim>\<open>print(text, ind)\<close> wrote before it.
\<close>

datatype failure =
    KeyError
  | IndexError
  | ValueError
  | RuntimeError
  | SystemExit tensor2 int

section \<open>\<^verbatim>\<open>drop_entry\<close>\<close>

text \<open>
  A split is a dictionary from modality name to the array of its samples; the
  association list keeps the order of the keys, which Python's \<^verbatim>\<open>dict\<close> keeps too.
\<close>

type_synonym raw_split = "(string \<times> tensor2 list) list"





section \<open>Arithmetic for the normalisation\<close>

text \<open>
  Exact arithmetic, with the special values combined as IEEE 754 combines them. A zero
  divisor is taken as \<open>+0\<close>: the only divisors of the code are a standard deviation
  and a count.
\<close>

fun fneg :: "fval \<Rightarrow> fval" where
  "fneg (Fin a) = Fin (- a)"
| "fneg PInf = NInf"
| "fneg NInf = PInf"
| "fneg NaN = NaN"

definition fsub :: "fval \<Rightarrow> fval \<Rightarrow> fval" where
  "fsub x y = fadd x (fneg y)"

fun fsquare :: "fval \<Rightarrow> fval" where
  "fsquare (Fin a) = Fin (a * a)"
| "fsquare PInf = PInf"
| "fsquare NInf = PInf"
| "fsquare NaN = NaN"

fun fdiv :: "fval \<Rightarrow> fval \<Rightarrow> fval" where
  "fdiv (Fin a) (Fin b) =
     (if b = 0 then (if a = 0 then NaN else if 0 < a then PInf else NInf) else Fin (a / b))"
| "fdiv NaN _ = NaN"
| "fdiv _ NaN = NaN"
| "fdiv (Fin a) _ = Fin 0"
| "fdiv PInf (Fin b) = (if 0 \<le> b then PInf else NInf)"
| "fdiv NInf (Fin b) = (if 0 \<le> b then NInf else PInf)"
| "fdiv _ _ = NaN"

fun fsqrt :: "fval \<Rightarrow> fval" where
  "fsqrt (Fin a) = (if a < 0 then NaN else Fin (sqrt a))"
| "fsqrt PInf = PInf"
| "fsqrt NInf = NaN"
| "fsqrt NaN = NaN"

text \<open>The largest finite \<^verbatim>\<open>float32\<close>, the type \<^verbatim>\<open>.float()\<close> casts to.\<close>

definition float_max :: real where
  "float_max = (2 - 1 / 2 ^ 23) * 2 ^ 127"

text \<open>
  \<^verbatim>\<open>torch.nan_to_num\<close> with its default arguments: NaN becomes 0, the infinities become
  the largest and the smallest finite value.
\<close>

fun nan_to_num :: "fval \<Rightarrow> fval" where
  "nan_to_num NaN = Fin 0"
| "nan_to_num PInf = Fin float_max"
| "nan_to_num NInf = Fin (- float_max)"
| "nan_to_num (Fin a) = Fin a"

definition fsum :: "fval list \<Rightarrow> fval" where
  "fsum xs = foldr fadd xs (Fin 0)"

text \<open>\<^verbatim>\<open>x.mean(0)\<close> of one feature column.\<close>

definition mean :: "fval list \<Rightarrow> fval" where
  "mean xs = fdiv (fsum xs) (Fin (of_nat (length xs)))"

text \<open>
  \<^verbatim>\<open>torch.std(x, axis=0)\<close> of one feature column: the unbiased estimator, which divides by
  \<open>max 0 (N - 1)\<close>.
\<close>

definition std :: "fval list \<Rightarrow> fval" where
  "std xs =
     (let m = mean xs
      in fsqrt (fdiv (fsum (map (\<lambda>x. fsquare (fsub x m)) xs)) (Fin (of_nat (length xs - 1)))))"

definition column :: "tensor2 \<Rightarrow> nat \<Rightarrow> fval list" where
  "column t j = map (\<lambda>r. r ! j) (rows t)"

text \<open>
  \<^verbatim>\<open>torch.nan_to_num((x - x.mean(0, keepdims=True)) / torch.std(x, axis=0, keepdims=True))\<close>
\<close>

definition normalize :: "tensor2 \<Rightarrow> tensor2" where
  "normalize x =
     Tensor2 (ncols x)
       (map (\<lambda>r. map (\<lambda>j. nan_to_num (fdiv (fsub (r ! j) (mean (column x j))) (std (column x j))))
                    [0..<ncols x])
            (rows x))"

section \<open>\<^verbatim>\<open>SentimentDataset\<close>\<close>

record sentiment_dataset =
  dataset :: raw_split
  flatten :: bool
  aligned :: bool
  task :: "string option"
  max_pad :: bool
  max_pad_num :: int
  data_type :: string
  z_norm :: bool

text \<open>\<^verbatim>\<open>d[key] = value\<close> on a dictionary.\<close>

fun dict_set :: "string \<Rightarrow> 'v \<Rightarrow> (string \<times> 'v) list \<Rightarrow> (string \<times> 'v) list" where
  "dict_set key v [] = [(key, v)]"
| "dict_set key v ((k, w) # rest) =
     (if k = key then (k, v) # rest else (k, w) # dict_set key v rest)"

text \<open>\<^verbatim>\<open>a[a == -np.inf] = 0.0\<close> on one sample of the audio array.\<close>

definition clear_neg_inf :: "tensor2 \<Rightarrow> tensor2" where
  "clear_neg_inf t = Tensor2 (ncols t) (map (map (\<lambda>x. if x = NInf then Fin 0 else x)) (rows t))"

text \<open>
  \<^verbatim>\<open>__init__\<close>. The assignment through the mask writes into the array the caller passed
  in; the dictionary of the new object is that dictionary, with the audio array cleaned.
\<close>

definition SentimentDataset_init ::
  "raw_split \<Rightarrow> bool \<Rightarrow> bool \<Rightarrow> string option \<Rightarrow> bool \<Rightarrow> int \<Rightarrow> string \<Rightarrow> bool
     \<Rightarrow> failure + sentiment_dataset" where
  "SentimentDataset_init data flatten_time_series al tk mp mpn dt zn =
     (case map_of data ''audio'' of
        None \<Rightarrow> Inl KeyError
      | Some audio \<Rightarrow>
          Inr \<lparr> dataset = dict_set ''audio'' (map clear_neg_inf audio) data,
                flatten = flatten_time_series, aligned = al, task = tk, max_pad = mp,
                max_pad_num = mpn, data_type = dt, z_norm = zn \<rparr>)"

subsection \<open>Reading a sample\<close>

text \<open>\<^verbatim>\<open>arr[ind]\<close> on the first axis of a numpy array: a negative index counts from the end.\<close>

definition np_index :: "'a list \<Rightarrow> int \<Rightarrow> failure + 'a" where
  "np_index arr ind =
     (let n = int (length arr); j = (if ind < 0 then n + ind else ind)
      in if 0 \<le> j \<and> j < n then Inr (arr ! nat j) else Inl IndexError)"

text \<open>\<^verbatim>\<open>self.dataset[key][ind]\<close>\<close>

definition fetch :: "raw_split \<Rightarrow> string \<Rightarrow> int \<Rightarrow> failure + tensor2" where
  "fetch d key ind =
     (case map_of d key of None \<Rightarrow> Inl KeyError | Some arr \<Rightarrow> np_index arr ind)"

text \<open>
  \<^verbatim>\<open>t.nonzero()\<close>: the index pairs \<open>(time, feature)\<close> of the entries that differ from 0, in
  row-major order. NaN and the infinities differ from 0.
\<close>

definition nonzero :: "tensor2 \<Rightarrow> (nat \<times> nat) list" where
  "nonzero t =
     concat (map (\<lambda>p. map (\<lambda>q. (fst p, fst q)) (filter (\<lambda>q. snd q \<noteq> Fin 0) (enumerate 0 (snd p))))
                 (enumerate 0 (rows t)))"

text \<open>\<^verbatim>\<open>t.nonzero()[0][0]\<close>: indexing an empty result raises \<^verbatim>\<open>IndexError\<close>.\<close>

definition first_nonzero :: "tensor2 \<Rightarrow> failure + nat" where
  "first_nonzero t = (case nonzero t of [] \<Rightarrow> Inl IndexError | p # _ \<Rightarrow> Inr (fst p))"

text \<open>\<^verbatim>\<open>t[start:]\<close>\<close>

definition slice_from :: "nat \<Rightarrow> tensor2 \<Rightarrow> tensor2" where
  "slice_from start t = Tensor2 (ncols t) (drop start (rows t))"

text \<open>
  Lines 127 to 139. Under \<^verbatim>\<open>aligned\<close> the bare \<^verbatim>\<open>except\<close> turns the failed indexing into
  \<^verbatim>\<open>print(text, ind); exit()\<close>; otherwise the \<^verbatim>\<open>IndexError\<close> of the first modality
  without a non-zero entry escapes.
\<close>

definition align ::
  "bool \<Rightarrow> int \<Rightarrow> tensor2 \<Rightarrow> tensor2 \<Rightarrow> tensor2 \<Rightarrow> failure + (tensor2 \<times> tensor2 \<times> tensor2)" where
  "align al ind vision audio text =
     (if al then
        (case first_nonzero text of
           Inl e \<Rightarrow> Inl (SystemExit text ind)
         | Inr start \<Rightarrow>
             Inr (slice_from start vision, slice_from start audio, slice_from start text))
      else
        (case first_nonzero vision of
           Inl e \<Rightarrow> Inl e
         | Inr sv \<Rightarrow>
             (case first_nonzero audio of
                Inl e \<Rightarrow> Inl e
              | Inr sa \<Rightarrow>
                  (case first_nonzero text of
                     Inl e \<Rightarrow> Inl e
                   | Inr st \<Rightarrow>
                       Inr (slice_from sv vision, slice_from sa audio, slice_from st text)))))"

text \<open>Lines 142 to 154.\<close>

definition z_normalize ::
  "bool \<Rightarrow> tensor2 \<times> tensor2 \<times> tensor2 \<Rightarrow> tensor2 \<times> tensor2 \<times> tensor2" where
  "z_normalize zn m =
     (case m of (vision, audio, text) \<Rightarrow>
        if zn then (normalize vision, normalize audio, normalize text) else (vision, audio, text))"

fun positive :: "fval \<Rightarrow> bool" where
  "positive (Fin a) = (0 < a)"
| "positive PInf = True"
| "positive NInf = False"
| "positive NaN = False"

text \<open>
  \<^verbatim>\<open>_get_class(flag)\<close>: \<^verbatim>\<open>flag > 0\<close> is an array, and its truth value is defined when it
  holds one entry; otherwise numpy raises \<^verbatim>\<open>ValueError\<close>.
\<close>

definition get_class :: "tensor2 \<Rightarrow> failure + tensor2" where
  "get_class flag =
     (case elems flag of
        [x] \<Rightarrow> Inr (Tensor2 1 [[if positive x then Fin 1 else Fin 0]])
      | _ \<Rightarrow> Inl ValueError)"

text \<open>Lines 159 to 165.\<close>

definition make_label :: "string option \<Rightarrow> tensor2 \<Rightarrow> failure + tensor2" where
  "make_label tk tmp_label =
     (if tk = Some ''classification'' then get_class tmp_label else Inr tmp_label)"

text \<open>\<^verbatim>\<open>t[:n]\<close>: a negative \<open>n\<close> counts from the end.\<close>

definition slice_to :: "int \<Rightarrow> tensor2 \<Rightarrow> tensor2" where
  "slice_to n t =
     Tensor2 (ncols t)
       (take (if 0 \<le> n then nat n else nat (int (length (rows t)) + n)) (rows t))"

text \<open>
  \<^verbatim>\<open>F.pad(t, (0, 0, 0, p))\<close>: \<open>p\<close> rows of zeros after the last row; a negative \<open>p\<close>
  removes rows, and a negative resulting size raises \<^verbatim>\<open>RuntimeError\<close>.
\<close>

definition F_pad_bottom :: "int \<Rightarrow> tensor2 \<Rightarrow> failure + tensor2" where
  "F_pad_bottom p t =
     (if 0 \<le> p then Inr (Tensor2 (ncols t) (rows t @ replicate (nat p) (replicate (ncols t) (Fin 0))))
      else if int (length (rows t)) + p < 0 then Inl RuntimeError
      else Inr (Tensor2 (ncols t) (take (nat (int (length (rows t)) + p)) (rows t))))"

text \<open>The body of the loop at lines 178 to 182, for one entry of \<^verbatim>\<open>tmp\<close>.\<close>

definition pad_entry :: "int \<Rightarrow> tensor2 \<Rightarrow> failure + tensor2" where
  "pad_entry n t = (let c = slice_to n t in F_pad_bottom (n - int (size0 c)) c)"

type_synonym unpadded_sample = "tensor2 \<times> tensor2 \<times> tensor2 \<times> int \<times> tensor2"
type_synonym padded_sample = "tensor2 \<times> tensor2 \<times> tensor2 \<times> tensor2"

text \<open>The three lists \<^verbatim>\<open>__getitem__\<close> can return.\<close>

datatype sample =
    Flat "fval list" "fval list" "fval list" int tensor2
  | Padded padded_sample
  | Unpadded unpadded_sample

text \<open>
  A method is a function of the object that returns the object beside its result or its
  failure.
\<close>

type_synonym 'a action = "sentiment_dataset \<Rightarrow> (failure + 'a) \<times> sentiment_dataset"

definition ret :: "'a \<Rightarrow> 'a action" where
  "ret x = (\<lambda>self. (Inr x, self))"

definition attr :: "(sentiment_dataset \<Rightarrow> 'a) \<Rightarrow> 'a action" where
  "attr f = (\<lambda>self. (Inr (f self), self))"

definition lift :: "failure + 'a \<Rightarrow> 'a action" where
  "lift r = (\<lambda>self. (r, self))"

definition and_then :: "'a action \<Rightarrow> ('a \<Rightarrow> 'b action) \<Rightarrow> 'b action" where
  "and_then m f =
     (\<lambda>self. case m self of (Inl e, self') \<Rightarrow> (Inl e, self') | (Inr x, self') \<Rightarrow> f x self')"

text \<open>Lines 167 to 185: the three ways out.\<close>

definition pack :: "int \<Rightarrow> tensor2 \<times> tensor2 \<times> tensor2 \<Rightarrow> tensor2 \<Rightarrow> sample action" where
  "pack ind m label =
     (case m of (vision, audio, text) \<Rightarrow>
        and_then (attr flatten) (\<lambda>fl.
          if fl then ret (Flat (elems vision) (elems audio) (elems text) ind label)
          else
            and_then (attr max_pad) (\<lambda>mp.
              if mp then
                and_then (attr max_pad_num) (\<lambda>n.
                and_then (lift (pad_entry n vision)) (\<lambda>v.
                and_then (lift (pad_entry n audio)) (\<lambda>a.
                and_then (lift (pad_entry n text)) (\<lambda>t.
                  ret (Padded (v, a, t, label))))))
              else ret (Unpadded (vision, audio, text, ind, label)))))"

text \<open>Lines 141 to 185: everything after the modalities have been cut at the front.\<close>

definition finish :: "int \<Rightarrow> tensor2 \<times> tensor2 \<times> tensor2 \<Rightarrow> sample action" where
  "finish ind m =
     and_then (attr z_norm) (\<lambda>zn.
     and_then (attr dataset) (\<lambda>d.
     and_then (lift (fetch d ''labels'' ind)) (\<lambda>tmp_label.
     and_then (attr task) (\<lambda>tk.
     and_then (lift (make_label tk tmp_label)) (\<lambda>label.
       pack ind (z_normalize zn m) label)))))"

text \<open>\<^verbatim>\<open>__getitem__\<close>\<close>

definition getitem :: "int \<Rightarrow> sample action" where
  "getitem ind =
     and_then (attr dataset) (\<lambda>d.
     and_then (lift (fetch d ''vision'' ind)) (\<lambda>vision.
     and_then (lift (fetch d ''audio'' ind)) (\<lambda>audio.
     and_then (lift (fetch d ''text'' ind)) (\<lambda>text.
     and_then (attr aligned) (\<lambda>al.
     and_then (lift (align al ind vision audio text)) (\<lambda>m.
       finish ind m))))))"

section \<open>The collators of the continuous family\<close>

text \<open>A list is mapped through a step that can fail; the first failure is the result.\<close>

fun try_map :: "('a \<Rightarrow> failure + 'b) \<Rightarrow> 'a list \<Rightarrow> failure + 'b list" where
  "try_map f [] = Inr []"
| "try_map f (x # xs) =
     (case f x of
        Inl e \<Rightarrow> Inl e
      | Inr y \<Rightarrow> (case try_map f xs of Inl e \<Rightarrow> Inl e | Inr ys \<Rightarrow> Inr (y # ys)))"

definition max_len :: "nat list \<Rightarrow> nat" where
  "max_len ns = foldr max ns 0"

definition zero_row :: "nat \<Rightarrow> fval list" where
  "zero_row D = replicate D (Fin 0)"

text \<open>
  The copy of one sequence into its place in the padded batch. \<^verbatim>\<open>copy_\<close> broadcasts the
  source to the width of the batch: a sequence of width 1 fills every feature, any other
  width than that of the batch raises \<^verbatim>\<open>RuntimeError\<close>.
\<close>

definition copy_rows :: "nat \<Rightarrow> tensor2 \<Rightarrow> failure + fval list list" where
  "copy_rows D t =
     (if ncols t = D then Inr (rows t)
      else if ncols t = 1 then Inr (map (\<lambda>r. replicate D (hd r)) (rows t))
      else Inl RuntimeError)"

text \<open>
  \<^verbatim>\<open>pad_sequence(sequences, batch_first=True)\<close> on 2-D tensors: a batch of zeros, as long
  as the longest sequence and as wide as the first one, into which every sequence is
  copied from the top. The batch is the list of its samples.
\<close>

definition pad_sequence :: "tensor2 list \<Rightarrow> failure + tensor2 list" where
  "pad_sequence sequences =
     (case sequences of
        [] \<Rightarrow> Inl RuntimeError
      | s0 # _ \<Rightarrow>
          (let D = ncols s0; L = max_len (map size0 sequences)
           in try_map (\<lambda>t. case copy_rows D t of
                              Inl e \<Rightarrow> Inl e
                            | Inr rs \<Rightarrow> Inr (Tensor2 D (rs @ replicate (L - length rs) (zero_row D))))
                      sequences))"

text \<open>\<^verbatim>\<open>t.reshape(n, m)\<close>: the entries in row-major order, cut into \<open>n\<close> rows of \<open>m\<close>.\<close>

definition reshape :: "nat \<Rightarrow> nat \<Rightarrow> tensor2 \<Rightarrow> failure + tensor2" where
  "reshape n m t =
     (if n * m = length (elems t)
      then Inr (Tensor2 m (map (\<lambda>i. take m (drop (i * m) (elems t))) [0..<n]))
      else Inl RuntimeError)"

text \<open>\<^verbatim>\<open>t[0]\<close> on a 2-D tensor.\<close>

definition first_row :: "tensor2 \<Rightarrow> failure + fval list" where
  "first_row t = (case rows t of [] \<Rightarrow> Inl IndexError | r # _ \<Rightarrow> Inr r)"

text \<open>What the label loop appends: a 1-D tensor or the label itself.\<close>

datatype collected = Vec "fval list" | Mat tensor2

text \<open>Lines 365 to 370, and 395 to 400.\<close>

definition collect_label :: "tensor2 \<Rightarrow> failure + collected" where
  "collect_label l =
     (if ncols l > 1 then
        (case reshape (ncols l) (size0 l) l of
           Inl e \<Rightarrow> Inl e
         | Inr r \<Rightarrow> (case first_row r of Inl e \<Rightarrow> Inl e | Inr v \<Rightarrow> Inr (Vec v)))
      else Inr (Mat l))"

fun entries :: "collected \<Rightarrow> fval list" where
  "entries (Vec v) = v"
| "entries (Mat t) = elems t"

text \<open>
  \<^verbatim>\<open>torch.tensor(labels).view(len(inputs), 1)\<close>: every collected label has to hold exactly
  one entry, or the conversion (or the view of it) raises.
\<close>

definition label_column :: "collected list \<Rightarrow> failure + tensor2" where
  "label_column labels =
     (case try_map (\<lambda>c. case entries c of [x] \<Rightarrow> Inr [x] | _ \<Rightarrow> Inl ValueError) labels of
        Inl e \<Rightarrow> Inl e
      | Inr rs \<Rightarrow> Inr (Tensor2 1 rs))"

text \<open>\<^verbatim>\<open>sample[i]\<close> for \<open>i\<close> in \<^verbatim>\<open>range(len(inputs[0]) - 2)\<close>, and \<^verbatim>\<open>sample[-2]\<close>, \<^verbatim>\<open>sample[-1]\<close>.\<close>

fun modalities_1 :: "unpadded_sample \<Rightarrow> tensor2 list" where
  "modalities_1 (vision, audio, text, ind, label) = [vision, audio, text]"

fun ind_1 :: "unpadded_sample \<Rightarrow> int" where
  "ind_1 (vision, audio, text, ind, label) = ind"

fun label_1 :: "unpadded_sample \<Rightarrow> tensor2" where
  "label_1 (vision, audio, text, ind, label) = label"

text \<open>
  \<^verbatim>\<open>_process_1\<close>. The result: the three padded batches, the three tensors of lengths, the
  column of indices and the column of labels.
\<close>

definition process_1 ::
  "unpadded_sample list \<Rightarrow> failure + (tensor2 list list \<times> nat list list \<times> int list list \<times> tensor2)" where
  "process_1 inputs =
     (case inputs of
        [] \<Rightarrow> Inl IndexError
      | _ # _ \<Rightarrow>
          (case try_map (\<lambda>i. pad_sequence (map (\<lambda>sample. modalities_1 sample ! i) inputs)) [0..<3] of
             Inl e \<Rightarrow> Inl e
           | Inr processed_input \<Rightarrow>
               (let processed_input_lengths =
                      map (\<lambda>i. map (\<lambda>sample. size0 (modalities_1 sample ! i)) inputs) [0..<3]
                in case try_map (\<lambda>sample. collect_label (label_1 sample)) inputs of
                     Inl e \<Rightarrow> Inl e
                   | Inr labels \<Rightarrow>
                       (case label_column labels of
                          Inl e \<Rightarrow> Inl e
                        | Inr labels_column \<Rightarrow>
                            Inr (processed_input, processed_input_lengths,
                                 map (\<lambda>sample. [ind_1 sample]) inputs, labels_column)))))"

fun modalities_2 :: "padded_sample \<Rightarrow> tensor2 list" where
  "modalities_2 (vision, audio, text, label) = [vision, audio, text]"

fun label_2 :: "padded_sample \<Rightarrow> tensor2" where
  "label_2 (vision, audio, text, label) = label"

text \<open>\<^verbatim>\<open>torch.stack(feature)\<close>: the tensors must have one shape.\<close>

definition stack :: "tensor2 list \<Rightarrow> failure + tensor2 list" where
  "stack feature =
     (case feature of
        [] \<Rightarrow> Inl RuntimeError
      | f0 # _ \<Rightarrow>
          if list_all (\<lambda>t. size0 t = size0 f0 \<and> ncols t = ncols f0) feature then Inr feature
          else Inl RuntimeError)"

text \<open>\<^verbatim>\<open>_process_2\<close>\<close>

definition process_2 ::
  "padded_sample list \<Rightarrow> failure + (tensor2 list \<times> tensor2 list \<times> tensor2 list \<times> tensor2)" where
  "process_2 inputs =
     (case inputs of
        [] \<Rightarrow> Inl IndexError
      | _ # _ \<Rightarrow>
          (case try_map (\<lambda>i. stack (map (\<lambda>sample. modalities_2 sample ! i) inputs)) [0..<3] of
             Inl e \<Rightarrow> Inl e
           | Inr processed_input \<Rightarrow>
               (case try_map (\<lambda>sample. collect_label (label_2 sample)) inputs of
                  Inl e \<Rightarrow> Inl e
                | Inr labels \<Rightarrow>
                    (case label_column labels of
                       Inl e \<Rightarrow> Inl e
                     | Inr labels_column \<Rightarrow>
                         Inr (processed_input ! 0, processed_input ! 1, processed_input ! 2,
                              labels_column)))))"

section \<open>The collator of the discrete family\<close>

record meld_sample =
  sample_Id :: string
  token_ids :: "int list"
  video_features :: tensor2
  audio_features :: tensor2
  label :: int

text \<open>\<^verbatim>\<open>pad_sequence(sequences, batch_first=True)\<close> on 1-D tensors of token ids.\<close>

definition pad_sequence_1d :: "int list list \<Rightarrow> failure + int list list" where
  "pad_sequence_1d sequences =
     (case sequences of
        [] \<Rightarrow> Inl RuntimeError
      | _ # _ \<Rightarrow>
          (let L = max_len (map length sequences)
           in Inr (map (\<lambda>xs. xs @ replicate (L - length xs) 0) sequences)))"

text \<open>
  \<^verbatim>\<open>collate_fn\<close>. The devices are left out. The result is the tuple
  \<^verbatim>\<open>(s, v, a, y, l, None, None, bert_sent_mask)\<close>.
\<close>

type_synonym meld_batch =
  "int list list \<times> tensor2 list \<times> tensor2 list \<times> int list \<times> nat list
     \<times> unit option \<times> unit option \<times> bool list list"

definition collate_fn :: "meld_sample list \<Rightarrow> failure + meld_batch" where
  "collate_fn batch0 =
     (let batch = sort_key (\<lambda>x. length (token_ids x)) batch0;
          labels = map label batch
      in case pad_sequence_1d (map token_ids batch) of
           Inl e \<Rightarrow> Inl e
         | Inr text0 \<Rightarrow>
             (case pad_sequence (map video_features batch) of
                Inl e \<Rightarrow> Inl e
              | Inr visual0 \<Rightarrow>
                  (case pad_sequence (map audio_features batch) of
                     Inl e \<Rightarrow> Inl e
                   | Inr acoustic0 \<Rightarrow>
                       (let lengths0 = map (\<lambda>sample. length (token_ids sample)) batch;
                            text = map (\<lambda>row. 0 # row) text0;
                            visual = map (\<lambda>t. Tensor2 (ncols t) (zero_row (ncols t) # rows t)) visual0;
                            acoustic = map (\<lambda>t. Tensor2 (ncols t) (zero_row (ncols t) # rows t)) acoustic0;
                            lengths = map (\<lambda>n. n + 1) lengths0;
                            SENT_LEN = length (hd text);
                            bert_sent_mask = map (\<lambda>n. map (\<lambda>t. t < n) [0..<SENT_LEN]) lengths
                        in Inr (text, visual, acoustic, labels, lengths, None, None, bert_sent_mask)))))"

fun batch_lengths :: "meld_batch \<Rightarrow> nat list" where
  "batch_lengths (s, v, a, y, l, n1, n2, m) = l"

fun batch_mask :: "meld_batch \<Rightarrow> bool list list" where
  "batch_mask (s, v, a, y, l, n1, n2, m) = m"

fun batch_text :: "meld_batch \<Rightarrow> int list list" where
  "batch_text (s, v, a, y, l, n1, n2, m) = s"

section \<open>Notions the properties are stated with\<close>

text \<open>
  Time \<open>k\<close> is the first time at which the tensor has a non-zero entry: row \<open>k\<close> exists
  and is not all zero, and every earlier row is.
\<close>

definition first_nonzero_time :: "tensor2 \<Rightarrow> nat \<Rightarrow> bool" where
  "first_nonzero_time t k =
     (k < size0 t \<and> \<not> list_all (\<lambda>x. x = Fin 0) (rows t ! k)
      \<and> (\<forall>i < k. list_all (\<lambda>x. x = Fin 0) (rows t ! i)))"

text \<open>
  A tensor brought to \<open>n\<close> frames: cut after \<open>n\<close> rows when it is longer, filled with
  rows of zeros when it is shorter.
\<close>

definition fit_length :: "nat \<Rightarrow> tensor2 \<Rightarrow> tensor2" where
  "fit_length n t = Tensor2 (ncols t) (take n (rows t) @ replicate (n - size0 t) (zero_row (ncols t)))"

text \<open>
  A batch as the unpadded path of one split yields it: within each modality all samples
  have the width of the first, and every label is one well-formed row of at least one
  value.
\<close>

definition uniform_batch :: "unpadded_sample list \<Rightarrow> bool" where
  "uniform_batch inputs =
     (\<forall>s \<in> set inputs.
        (\<forall>m < 3. ncols (modalities_1 s ! m) = ncols (modalities_1 (hd inputs) ! m))
        \<and> size0 (label_1 s) = 1 \<and> 1 \<le> ncols (label_1 s) \<and> wf_tensor (label_1 s))"

text \<open>The lengths a run of the collator returned, when it returned.\<close>

definition returned_lengths :: "failure + meld_batch \<Rightarrow> nat list option" where
  "returned_lengths r = (case r of Inl e \<Rightarrow> None | Inr out \<Rightarrow> Some (batch_lengths out))"

text \<open>The sum of a row of the mask: the number of its valid positions.\<close>

definition row_sum :: "bool list \<Rightarrow> nat" where
  "row_sum row = length (filter (\<lambda>v. v) row)"

section \<open>Concrete data\<close>



text \<open>
  Three samples. The first has its first non-zero text entry at time 1 and a negative
  infinity in its audio; the text of the second is all zero; the vision of the third is
  all zero.
\<close>

definition ex_data :: raw_split where
  "ex_data =
     [(''vision'', [Tensor2 1 [[Fin 0], [Fin 5], [Fin 6]],
                    Tensor2 1 [[Fin 1], [Fin 2], [Fin 3]],
                    Tensor2 1 [[Fin 0], [Fin 0], [Fin 0]]]),
      (''audio'', [Tensor2 1 [[NInf], [Fin 0], [Fin 7]],
                   Tensor2 1 [[Fin 1], [Fin 1], [Fin 1]],
                   Tensor2 1 [[Fin 1], [Fin 2], [Fin 3]]]),
      (''text'', [Tensor2 2 [[Fin 0, Fin 0], [Fin 0, Fin 3], [Fin 4, Fin 0]],
                  Tensor2 2 [[Fin 0, Fin 0], [Fin 0, Fin 0], [Fin 0, Fin 0]],
                  Tensor2 2 [[Fin 1, Fin 0], [Fin 0, Fin 0], [Fin 0, Fin 0]]]),
      (''labels'', [Tensor2 1 [[Fin 1]], Tensor2 1 [[Fin (- 1)]], Tensor2 1 [[Fin 2]]])]"

definition ex_clean :: raw_split where
  "ex_clean =
     [(''vision'', [Tensor2 1 [[Fin 0], [Fin 5], [Fin 6]],
                    Tensor2 1 [[Fin 1], [Fin 2], [Fin 3]],
                    Tensor2 1 [[Fin 0], [Fin 0], [Fin 0]]]),
      (''audio'', [Tensor2 1 [[Fin 0], [Fin 0], [Fin 7]],
                   Tensor2 1 [[Fin 1], [Fin 1], [Fin 1]],
                   Tensor2 1 [[Fin 1], [Fin 2], [Fin 3]]]),
      (''text'', [Tensor2 2 [[Fin 0, Fin 0], [Fin 0, Fin 3], [Fin 4, Fin 0]],
                  Tensor2 2 [[Fin 0, Fin 0], [Fin 0, Fin 0], [Fin 0, Fin 0]],
                  Tensor2 2 [[Fin 1, Fin 0], [Fin 0, Fin 0], [Fin 0, Fin 0]]]),
      (''labels'', [Tensor2 1 [[Fin 1]], Tensor2 1 [[Fin (- 1)]], Tensor2 1 [[Fin 2]]])]"

text \<open>The objects over these data: the defaults of the constructor, and variations.\<close>

definition ex_self :: sentiment_dataset where
  "ex_self = \<lparr> dataset = ex_clean, flatten = False, aligned = True, task = None,
               max_pad = False, max_pad_num = 50, data_type = ''mosi'', z_norm = False \<rparr>"

definition ex_unaligned :: sentiment_dataset where
  "ex_unaligned = ex_self \<lparr> aligned := False \<rparr>"

definition ex_padded :: sentiment_dataset where
  "ex_padded = ex_self \<lparr> max_pad := True, max_pad_num := 2 \<rparr>"

text \<open>Two samples of the unpadded path, of two and of three frames, and a batch of them.\<close>

definition ex_short :: unpadded_sample where
  "ex_short = (Tensor2 1 [[Fin 5], [Fin 6]], Tensor2 1 [[Fin 0], [Fin 7]],
               Tensor2 2 [[Fin 0, Fin 3], [Fin 4, Fin 0]], 0, Tensor2 1 [[Fin 1]])"

definition ex_long :: unpadded_sample where
  "ex_long = (Tensor2 1 [[Fin 0], [Fin 0], [Fin 0]], Tensor2 1 [[Fin 1], [Fin 2], [Fin 3]],
              Tensor2 2 [[Fin 1, Fin 0], [Fin 0, Fin 0], [Fin 0, Fin 0]], 2, Tensor2 1 [[Fin 2]])"




text \<open>A batch of the discrete family, with token sequences of lengths 2, 5 and 3.\<close>

definition ex_meld :: "meld_sample list" where
  "ex_meld =
     [\<lparr> sample_Id = ''a'', token_ids = [11, 12],
        video_features = Tensor2 1 [[Fin 1], [Fin 2]], audio_features = Tensor2 1 [[Fin 3]],
        label = 0 \<rparr>,
      \<lparr> sample_Id = ''b'', token_ids = [21, 22, 23, 24, 25],
        video_features = Tensor2 1 [[Fin 4]], audio_features = Tensor2 1 [[Fin 5], [Fin 6]],
        label = 1 \<rparr>,
      \<lparr> sample_Id = ''c'', token_ids = [31, 32, 33],
        video_features = Tensor2 1 [[Fin 7]], audio_features = Tensor2 1 [[Fin 8]],
        label = 2 \<rparr>]"

section \<open>Properties of \<^verbatim>\<open>drop_entry\<close>\<close>





lemma nths_cong_set:
  assumes "\<And>i. i < length xs \<Longrightarrow> i \<in> A \<longleftrightarrow> i \<in> B"
  shows "nths xs A = nths xs B"
proof -
  have "filter (\<lambda>p. snd p \<in> A) (zip xs [0..<length xs]) = filter (\<lambda>p. snd p \<in> B) (zip xs [0..<length xs])"
    by (rule filter_cong) (auto simp: set_zip assms)
  then show ?thesis by (simp add: nths_def)
qed


lemma nths_restrict: "nths xs {i. i < length xs \<and> i \<in> A} = nths xs A"
  by (rule nths_cong_set) auto

lemma fadd_eq_zero: "fadd x y = Fin 0 \<Longrightarrow> x = Fin 0 \<Longrightarrow> y = Fin 0"
  by (cases y) auto












section \<open>Properties of \<^verbatim>\<open>__getitem__\<close>\<close>

lemmas run_defs = getitem_def finish_def pack_def and_then_def attr_def lift_def ret_def
  fetch_def np_index_def align_def first_nonzero_def nonzero_def slice_from_def
  z_normalize_def make_label_def get_class_def pad_entry_def slice_to_def F_pad_bottom_def
  size0_def elems_def

subsection \<open>The object is only read\<close>

lemma snd_ret: "snd (ret x self) = self"
  by (simp add: ret_def)

lemma snd_attr: "snd (attr f self) = self"
  by (simp add: attr_def)

lemma snd_lift: "snd (lift r self) = self"
  by (simp add: lift_def)

lemma snd_and_then:
  assumes "\<And>s. snd (m s) = s" and "\<And>x s. snd (f x s) = s"
  shows "snd (and_then m f self) = self"
proof (cases "m self")
  case (Pair r s')
  have "s' = self" using assms(1) [of self] Pair by simp
  then show ?thesis using Pair assms(2) by (cases r) (simp_all add: and_then_def)
qed

lemma snd_pack: "snd (pack ind m lab self) = self"
proof -
  obtain v a t where m: "m = (v, a, t)" by (cases m)
  have padded: "snd (and_then (attr max_pad_num) (\<lambda>n.
                and_then (lift (pad_entry n v)) (\<lambda>v'.
                and_then (lift (pad_entry n a)) (\<lambda>a'.
                and_then (lift (pad_entry n t)) (\<lambda>t'.
                  ret (Padded (v', a', t', lab)))))) s) = s" for s
    by (intro snd_and_then snd_attr snd_lift snd_ret)
  have inner: "snd (and_then (attr max_pad) (\<lambda>mp.
              if mp then
                and_then (attr max_pad_num) (\<lambda>n.
                and_then (lift (pad_entry n v)) (\<lambda>v'.
                and_then (lift (pad_entry n a)) (\<lambda>a'.
                and_then (lift (pad_entry n t)) (\<lambda>t'.
                  ret (Padded (v', a', t', lab))))))
              else ret (Unpadded (v, a, t, ind, lab))) s) = s" for s
  proof (rule snd_and_then)
    show "snd (attr max_pad s) = s" for s by (rule snd_attr)
  next
    fix x s
    show "snd ((if x then
                and_then (attr max_pad_num) (\<lambda>n.
                and_then (lift (pad_entry n v)) (\<lambda>v'.
                and_then (lift (pad_entry n a)) (\<lambda>a'.
                and_then (lift (pad_entry n t)) (\<lambda>t'.
                  ret (Padded (v', a', t', lab))))))
              else ret (Unpadded (v, a, t, ind, lab))) s) = s"
      using padded [of s] by (cases x) (simp_all add: snd_ret)
  qed
  show ?thesis
    unfolding pack_def m prod.case
  proof (rule snd_and_then)
    show "snd (attr flatten s) = s" for s by (rule snd_attr)
  next
    fix x s
    show "snd ((if x then ret (Flat (elems v) (elems a) (elems t) ind lab)
          else
            and_then (attr max_pad) (\<lambda>mp.
              if mp then
                and_then (attr max_pad_num) (\<lambda>n.
                and_then (lift (pad_entry n v)) (\<lambda>v.
                and_then (lift (pad_entry n a)) (\<lambda>a.
                and_then (lift (pad_entry n t)) (\<lambda>t.
                  ret (Padded (v, a, t, lab))))))
              else ret (Unpadded (v, a, t, ind, lab)))) s) = s"
      using inner [of s] by (cases x) (simp_all add: snd_ret)
  qed
qed

lemma snd_finish: "snd (finish ind m self) = self"
  unfolding finish_def
  by (intro snd_and_then snd_attr snd_lift snd_pack)

lemma snd_getitem: "snd (getitem ind self) = self"
  unfolding getitem_def
  by (intro snd_and_then snd_attr snd_lift snd_finish)

lemma map_of_dict_set:
  "map_of (dict_set key v d) k = (if k = key then Some v else map_of d k)"
  by (induction d) auto

lemma clear_neg_inf_idem: "clear_neg_inf (clear_neg_inf t) = clear_neg_inf t"
  by (simp add: clear_neg_inf_def)


subsection \<open>The first non-zero entry\<close>

lemma row_nonzero_Nil:
  "map (\<lambda>q. (i, fst q)) (filter (\<lambda>q. snd q \<noteq> Fin 0) (enumerate 0 r)) = []
     \<longleftrightarrow> list_all (\<lambda>x. x = Fin 0) r"
proof -
  have "snd ` set (enumerate 0 r) = set r"
    using map_snd_enumerate [of 0 r] by (metis set_map)
  then have "(\<forall>q \<in> set (enumerate 0 r). snd q = Fin 0) \<longleftrightarrow> (\<forall>x \<in> set r. x = Fin 0)"
    by (metis (mono_tags, lifting) imageE imageI)
  then show ?thesis by (simp add: filter_empty_conv list_all_iff)
qed

lemma row_nonzero_Cons:
  "map (\<lambda>q. (i, fst q)) (filter (\<lambda>q. snd q \<noteq> Fin 0) (enumerate 0 r)) = p # ps \<Longrightarrow> fst p = i"
  by auto

lemma nonzero_scan:
  "case concat (map (\<lambda>p. map (\<lambda>q. (fst p, fst q)) (filter (\<lambda>q. snd q \<noteq> Fin 0) (enumerate 0 (snd p))))
                    (enumerate n rs)) of
     [] \<Rightarrow> list_all (list_all (\<lambda>x. x = Fin 0)) rs
   | p # _ \<Rightarrow> n \<le> fst p \<and> fst p - n < length rs
              \<and> \<not> list_all (\<lambda>x. x = Fin 0) (rs ! (fst p - n))
              \<and> (\<forall>i < fst p - n. list_all (\<lambda>x. x = Fin 0) (rs ! i))"
proof (induction rs arbitrary: n)
  case Nil
  show ?case by simp
next
  case (Cons r rs)
  define row where
    "row = map (\<lambda>q. (n, fst q)) (filter (\<lambda>q. snd q \<noteq> Fin 0) (enumerate 0 r))"
  define rest where
    "rest = concat (map (\<lambda>p. map (\<lambda>q. (fst p, fst q)) (filter (\<lambda>q. snd q \<noteq> Fin 0) (enumerate 0 (snd p))))
                    (enumerate (Suc n) rs))"
  have split: "concat (map (\<lambda>p. map (\<lambda>q. (fst p, fst q)) (filter (\<lambda>q. snd q \<noteq> Fin 0) (enumerate 0 (snd p))))
                    (enumerate n (r # rs))) = row @ rest"
    by (simp add: row_def rest_def)
  have ih: "case rest of
     [] \<Rightarrow> list_all (list_all (\<lambda>x. x = Fin 0)) rs
   | p # _ \<Rightarrow> Suc n \<le> fst p \<and> fst p - Suc n < length rs
              \<and> \<not> list_all (\<lambda>x. x = Fin 0) (rs ! (fst p - Suc n))
              \<and> (\<forall>i < fst p - Suc n. list_all (\<lambda>x. x = Fin 0) (rs ! i))"
    unfolding rest_def by (rule Cons.IH)
  show ?case
  proof (cases row)
    assume row_Nil: "row = []"
    then have zero: "list_all (\<lambda>x. x = Fin 0) r"
      using row_nonzero_Nil [of n r] by (simp add: row_def)
    show ?thesis
    proof (cases rest)
      assume rest_Nil: "rest = []"
      then have "list_all (list_all (\<lambda>x. x = Fin 0)) rs"
        using ih by simp
      then show ?thesis
        unfolding split row_Nil rest_Nil using zero by simp
    next
      fix p ps
      assume rest_Cons: "rest = p # ps"
      then have ih': "Suc n \<le> fst p \<and> fst p - Suc n < length rs
              \<and> \<not> list_all (\<lambda>x. x = Fin 0) (rs ! (fst p - Suc n))
              \<and> (\<forall>i < fst p - Suc n. list_all (\<lambda>x. x = Fin 0) (rs ! i))"
        using ih by simp
      then have eq: "fst p - n = Suc (fst p - Suc n)"
        by arith
      have before: "list_all (\<lambda>x. x = Fin 0) ((r # rs) ! i)" if "i < fst p - n" for i
        using that ih' zero eq by (cases i) auto
      have "n \<le> fst p \<and> fst p - n < length (r # rs)
              \<and> \<not> list_all (\<lambda>x. x = Fin 0) ((r # rs) ! (fst p - n))"
        using ih' eq by simp
      then show ?thesis
        unfolding split row_Nil rest_Cons using before by simp
    qed
  next
    fix p ps
    assume row_Cons: "row = p # ps"
    then have "fst p = n"
      unfolding row_def by (rule row_nonzero_Cons)
    moreover have "\<not> list_all (\<lambda>x. x = Fin 0) r"
      using row_Cons row_nonzero_Nil [of n r] by (simp add: row_def)
    ultimately show ?thesis
      unfolding split row_Cons by simp
  qed
qed

lemma all_zero_rows: "all_zero t \<longleftrightarrow> list_all (list_all (\<lambda>x. x = Fin 0)) (rows t)"
  by (auto simp: all_zero_def elems_def list_all_iff)

lemma nonzero_cases:
  "case nonzero t of
     [] \<Rightarrow> list_all (list_all (\<lambda>x. x = Fin 0)) (rows t)
   | p # _ \<Rightarrow> 0 \<le> fst p \<and> fst p - 0 < length (rows t)
              \<and> \<not> list_all (\<lambda>x. x = Fin 0) (rows t ! (fst p - 0))
              \<and> (\<forall>i < fst p - 0. list_all (\<lambda>x. x = Fin 0) (rows t ! i))"
  unfolding nonzero_def by (rule nonzero_scan)

lemma first_nonzero_zero: "all_zero t \<Longrightarrow> first_nonzero t = Inl IndexError"
proof -
  assume z: "all_zero t"
  show ?thesis
  proof (cases "nonzero t")
    case Nil
    then show ?thesis by (simp add: first_nonzero_def)
  next
    case (Cons p ps)
    then have "fst p < length (rows t) \<and> \<not> list_all (\<lambda>x. x = Fin 0) (rows t ! fst p)"
      using nonzero_cases [of t] by simp
    then show ?thesis
      using z by (auto simp: all_zero_rows list_all_length)
  qed
qed

lemma first_nonzero_time:
  assumes "\<not> all_zero t"
  shows "\<exists>k. first_nonzero t = Inr k \<and> first_nonzero_time t k"
proof (cases "nonzero t")
  case Nil
  then have "list_all (list_all (\<lambda>x. x = Fin 0)) (rows t)"
    using nonzero_cases [of t] by simp
  then show ?thesis using assms by (simp add: all_zero_rows)
next
  case (Cons p ps)
  then have "first_nonzero_time t (fst p)"
    using nonzero_cases [of t] by (simp add: first_nonzero_time_def size0_def)
  then show ?thesis using Cons by (auto simp: first_nonzero_def)
qed

lemma first_nonzero_time_unique:
  "first_nonzero_time t k \<Longrightarrow> first_nonzero_time t k' \<Longrightarrow> k = k'"
  unfolding first_nonzero_time_def by (meson linorder_neqE_nat)


lemma getitem_after_fetch:
  assumes "fetch (dataset self) ''vision'' ind = Inr v"
      and "fetch (dataset self) ''audio'' ind = Inr a"
      and "fetch (dataset self) ''text'' ind = Inr t"
  shows "getitem ind self =
           (case align (aligned self) ind v a t of
              Inl e \<Rightarrow> (Inl e, self)
            | Inr m \<Rightarrow> finish ind m self)"
  by (simp add: getitem_def and_then_def attr_def lift_def assms split: sum.splits)

text \<open>
  Claim C9. \<^verbatim>\<open>__getitem__\<close> hands the object back as it found it, at every index and
  under every setting of the flags, whether it returns a sample or fails. The constructor
  is where the data change: the object it makes holds the dictionary it was given with
  the audio array cleaned, every other key as it was; cleaning replaces the entries equal
  to negative infinity by 0 and keeps every other entry, and retrieval from the made
  object leaves it unchanged as well.
\<close>

theorem getitem_reads_only:
  "snd (getitem ind self) = self
   \<and> (SentimentDataset_init data fl al tk mp mpn dt zn = Inr made \<longrightarrow>
        (\<exists>audio. map_of data ''audio'' = Some audio
           \<and> dataset made = dict_set ''audio'' (map clear_neg_inf audio) data
           \<and> map_of (dataset made) ''audio'' = Some (map clear_neg_inf audio))
        \<and> (\<forall>key. key \<noteq> ''audio'' \<longrightarrow> map_of (dataset made) key = map_of data key)
        \<and> (\<forall>i. snd (getitem i made) = made))
   \<and> ncols (clear_neg_inf t) = ncols t
   \<and> rows (clear_neg_inf t) = map (map (\<lambda>x. if x = NInf then Fin 0 else x)) (rows t)"
proof -
  have "\<exists>audio. map_of data ''audio'' = Some audio
           \<and> dataset made = dict_set ''audio'' (map clear_neg_inf audio) data
           \<and> map_of (dataset made) ''audio'' = Some (map clear_neg_inf audio)"
       "\<forall>key. key \<noteq> ''audio'' \<longrightarrow> map_of (dataset made) key = map_of data key"
    if "SentimentDataset_init data fl al tk mp mpn dt zn = Inr made"
    using that
    by (auto simp: SentimentDataset_init_def map_of_dict_set split: option.splits)
  then show ?thesis
    by (simp add: snd_getitem clear_neg_inf_def)
qed

theorem getitem_reads_only_witness:
  "SentimentDataset_init ex_data False True None False 50 ''mosi'' False = Inr ex_self
   \<and> dataset ex_self = ex_clean
   \<and> snd (getitem 0 ex_self) = ex_self
   \<and> dataset (snd (getitem 1 ex_self)) = ex_clean"
proof -
  have made: "SentimentDataset_init ex_data False True None False 50 ''mosi'' False = Inr ex_self"
    by (simp add: SentimentDataset_init_def ex_data_def ex_self_def ex_clean_def clear_neg_inf_def)
  have "snd (getitem 0 ex_self) = ex_self" "snd (getitem 1 ex_self) = ex_self"
    using getitem_reads_only [of 0 ex_self ex_data False True None False 50 "''mosi''" False ex_self]
          getitem_reads_only [of 1 ex_self ex_data False True None False 50 "''mosi''" False ex_self]
    by blast+
  then show ?thesis
    using made by (simp add: ex_self_def)
qed

text \<open>
  Claim C5. Under \<^verbatim>\<open>aligned\<close>, when the three modality rows of the index are there and
  the text row is entirely zero, \<^verbatim>\<open>__getitem__\<close> ends in \<^verbatim>\<open>exit()\<close> after printing the
  text tensor and the index: the result is that failure, neither a sample nor any other
  exception.
\<close>

theorem aligned_zero_text_exits:
  assumes "aligned self"
      and "fetch (dataset self) ''vision'' ind = Inr v"
      and "fetch (dataset self) ''audio'' ind = Inr a"
      and "fetch (dataset self) ''text'' ind = Inr t"
      and "all_zero t"
  shows "getitem ind self = (Inl (SystemExit t ind), self)"
  using assms
  by (simp add: getitem_after_fetch align_def first_nonzero_zero)

theorem aligned_zero_text_exits_witness:
  "aligned ex_self \<and> all_zero (Tensor2 2 [[Fin 0, Fin 0], [Fin 0, Fin 0], [Fin 0, Fin 0]])
   \<and> getitem 1 ex_self =
       (Inl (SystemExit (Tensor2 2 [[Fin 0, Fin 0], [Fin 0, Fin 0], [Fin 0, Fin 0]]) 1), ex_self)"
proof -
  have h0: "aligned ex_self"
    by (simp add: ex_self_def)
  have h1: "fetch (dataset ex_self) ''vision'' 1 = Inr (Tensor2 1 [[Fin 1], [Fin 2], [Fin 3]])"
    by (simp add: ex_self_def ex_clean_def fetch_def np_index_def)
  have h2: "fetch (dataset ex_self) ''audio'' 1 = Inr (Tensor2 1 [[Fin 1], [Fin 1], [Fin 1]])"
    by (simp add: ex_self_def ex_clean_def fetch_def np_index_def)
  have h3: "fetch (dataset ex_self) ''text'' 1 = Inr (Tensor2 2 [[Fin 0, Fin 0], [Fin 0, Fin 0], [Fin 0, Fin 0]])"
    by (simp add: ex_self_def ex_clean_def fetch_def np_index_def)
  have h4: "all_zero (Tensor2 2 [[Fin 0, Fin 0], [Fin 0, Fin 0], [Fin 0, Fin 0]])"
    by (simp add: all_zero_def elems_def)
  show ?thesis
    using h0 h4 aligned_zero_text_exits [OF h0 h1 h2 h3 h4] by simp
qed

text \<open>
  Claim C4 does not hold as stated: without \<^verbatim>\<open>aligned\<close>, a sample whose text has a
  non-zero entry but whose vision is entirely zero is not cut at all; the indexing of
  the empty \<^verbatim>\<open>nonzero()\<close> raises \<^verbatim>\<open>IndexError\<close>.
\<close>

theorem getitem_cut_unaligned_counterexample:
  "fetch (dataset ex_unaligned) ''text'' 2 = Inr (Tensor2 2 [[Fin 1, Fin 0], [Fin 0, Fin 0], [Fin 0, Fin 0]])
   \<and> \<not> all_zero (Tensor2 2 [[Fin 1, Fin 0], [Fin 0, Fin 0], [Fin 0, Fin 0]])
   \<and> \<not> aligned ex_unaligned
   \<and> getitem 2 ex_unaligned = (Inl IndexError, ex_unaligned)"
  by (simp add: run_defs all_zero_def ex_unaligned_def ex_self_def ex_clean_def)

text \<open>
  Claim C4, amended. For an index whose three modality rows are there and whose text
  row has a non-zero entry, let \<open>k\<close> be the first time at which the text is non-zero.
  Under \<^verbatim>\<open>aligned\<close>, vision, audio and text are all cut from \<open>k\<close> to the end before
  the rest of \<^verbatim>\<open>__getitem__\<close> runs. Without \<^verbatim>\<open>aligned\<close>, and when vision and audio have
  a non-zero entry too, each modality is cut from its own first non-zero time.
\<close>

theorem getitem_cut:
  assumes "fetch (dataset self) ''vision'' ind = Inr v"
      and "fetch (dataset self) ''audio'' ind = Inr a"
      and "fetch (dataset self) ''text'' ind = Inr t"
      and "\<not> all_zero t"
  shows "\<exists>k. first_nonzero_time t k
           \<and> rows (slice_from k t) = drop k (rows t)
           \<and> (aligned self \<longrightarrow>
                getitem ind self = finish ind (slice_from k v, slice_from k a, slice_from k t) self)
           \<and> (\<not> aligned self \<and> \<not> all_zero v \<and> \<not> all_zero a \<longrightarrow>
                (\<exists>kv ka. first_nonzero_time v kv \<and> first_nonzero_time a ka
                   \<and> getitem ind self =
                        finish ind (slice_from kv v, slice_from ka a, slice_from k t) self))"
proof -
  obtain k where k: "first_nonzero t = Inr k" "first_nonzero_time t k"
    using first_nonzero_time [OF assms(4)] by blast
  have al: "getitem ind self = finish ind (slice_from k v, slice_from k a, slice_from k t) self"
    if "aligned self"
    using that k(1) by (simp add: getitem_after_fetch [OF assms(1-3)] align_def)
  have un: "\<exists>kv ka. first_nonzero_time v kv \<and> first_nonzero_time a ka
                   \<and> getitem ind self =
                        finish ind (slice_from kv v, slice_from ka a, slice_from k t) self"
    if na: "\<not> aligned self" and nv: "\<not> all_zero v" and nz: "\<not> all_zero a"
  proof -
    obtain kv where kv: "first_nonzero v = Inr kv" "first_nonzero_time v kv"
      using first_nonzero_time [OF nv] by blast
    obtain ka where ka: "first_nonzero a = Inr ka" "first_nonzero_time a ka"
      using first_nonzero_time [OF nz] by blast
    have "getitem ind self = finish ind (slice_from kv v, slice_from ka a, slice_from k t) self"
      using na k(1) kv(1) ka(1) by (simp add: getitem_after_fetch [OF assms(1-3)] align_def)
    then show ?thesis using kv(2) ka(2) by blast
  qed
  show ?thesis
    using k(2) al un by (auto simp: slice_from_def)
qed


theorem getitem_cut_witness:
  "first_nonzero_time (Tensor2 2 [[Fin 0, Fin 0], [Fin 0, Fin 3], [Fin 4, Fin 0]]) 1
   \<and> getitem 0 ex_self =
       (Inr (Unpadded (Tensor2 1 [[Fin 5], [Fin 6]], Tensor2 1 [[Fin 0], [Fin 7]],
                       Tensor2 2 [[Fin 0, Fin 3], [Fin 4, Fin 0]], 0, Tensor2 1 [[Fin 1]])), ex_self)
   \<and> getitem 0 ex_unaligned =
       (Inr (Unpadded (Tensor2 1 [[Fin 5], [Fin 6]], Tensor2 1 [[Fin 7]],
                       Tensor2 2 [[Fin 0, Fin 3], [Fin 4, Fin 0]], 0, Tensor2 1 [[Fin 1]])), ex_unaligned)"
proof -
  define v where "v = Tensor2 1 [[Fin 0], [Fin 5], [Fin 6]]"
  define a where "a = Tensor2 1 [[Fin 0], [Fin 0], [Fin 7]]"
  define t where "t = Tensor2 2 [[Fin 0, Fin 0], [Fin 0, Fin 3], [Fin 4, Fin 0]]"
  have t1: "first_nonzero_time t 1"
    by (simp add: first_nonzero_time_def t_def size0_def)
  have v1: "first_nonzero_time v 1"
    by (simp add: first_nonzero_time_def v_def size0_def)
  have a2: "first_nonzero_time a 2"
    by (simp add: first_nonzero_time_def a_def size0_def less_Suc_eq numeral_2_eq_2)
  have nz: "\<not> all_zero t" "\<not> all_zero v" "\<not> all_zero a"
    by (simp_all add: all_zero_def elems_def t_def v_def a_def)
  have f1: "fetch (dataset ex_self) ''vision'' 0 = Inr v"
           "fetch (dataset ex_self) ''audio'' 0 = Inr a"
           "fetch (dataset ex_self) ''text'' 0 = Inr t"
    by (simp_all add: ex_self_def ex_clean_def fetch_def np_index_def v_def a_def t_def)
  have f2: "fetch (dataset ex_unaligned) ''vision'' 0 = Inr v"
           "fetch (dataset ex_unaligned) ''audio'' 0 = Inr a"
           "fetch (dataset ex_unaligned) ''text'' 0 = Inr t"
    by (simp_all add: ex_unaligned_def ex_self_def ex_clean_def fetch_def np_index_def v_def a_def t_def)
  have "aligned ex_self"
    by (simp add: ex_self_def)
  then have "getitem 0 ex_self = finish 0 (slice_from 1 v, slice_from 1 a, slice_from 1 t) ex_self"
    using getitem_cut [OF f1 nz(1)] t1 first_nonzero_time_unique by blast
  then have r1: "getitem 0 ex_self =
       (Inr (Unpadded (Tensor2 1 [[Fin 5], [Fin 6]], Tensor2 1 [[Fin 0], [Fin 7]],
                       Tensor2 2 [[Fin 0, Fin 3], [Fin 4, Fin 0]], 0, Tensor2 1 [[Fin 1]])), ex_self)"
    by (simp add: finish_def pack_def and_then_def attr_def lift_def ret_def fetch_def np_index_def
        slice_from_def z_normalize_def make_label_def ex_self_def ex_clean_def v_def a_def t_def)
  have "\<not> aligned ex_unaligned"
    by (simp add: ex_unaligned_def ex_self_def)
  then have "getitem 0 ex_unaligned = finish 0 (slice_from 1 v, slice_from 2 a, slice_from 1 t) ex_unaligned"
    using getitem_cut [OF f2 nz(1)] nz(2,3) t1 v1 a2 first_nonzero_time_unique by metis
  then have r2: "getitem 0 ex_unaligned =
       (Inr (Unpadded (Tensor2 1 [[Fin 5], [Fin 6]], Tensor2 1 [[Fin 7]],
                       Tensor2 2 [[Fin 0, Fin 3], [Fin 4, Fin 0]], 0, Tensor2 1 [[Fin 1]])), ex_unaligned)"
    by (simp add: finish_def pack_def and_then_def attr_def lift_def ret_def fetch_def np_index_def
        slice_from_def z_normalize_def make_label_def ex_unaligned_def ex_self_def ex_clean_def
        v_def a_def t_def numeral_2_eq_2)
  show ?thesis
    using t1 r1 r2 by (simp add: t_def)
qed


subsection \<open>Padding to a fixed length\<close>

lemma pad_entry_negative: "n < 0 \<Longrightarrow> pad_entry n t = Inl RuntimeError"
  by (auto simp: pad_entry_def slice_to_def F_pad_bottom_def size0_def Let_def)

lemma pad_entry_nonnegative:
  "0 \<le> n \<Longrightarrow>
   pad_entry n t =
     Inr (Tensor2 (ncols t) (take (nat n) (rows t) @ replicate (nat n - size0 t) (zero_row (ncols t))))"
  by (auto simp: pad_entry_def slice_to_def F_pad_bottom_def size0_def Let_def zero_row_def min_def
      nat_diff_distrib' intro!: arg_cong [where f = "\<lambda>k. replicate k _"])

lemma size0_pad_entry: "pad_entry n t = Inr t' \<Longrightarrow> 0 \<le> n \<and> size0 t' = nat n \<and> ncols t' = ncols t"
proof (cases "n < 0")
  case True
  assume "pad_entry n t = Inr t'"
  then show ?thesis using pad_entry_negative [OF True, of t] by simp
next
  case False
  assume "pad_entry n t = Inr t'"
  then show ?thesis using False pad_entry_nonnegative [of n t] by (auto simp: size0_def)
qed

lemma getitem_steps:
  "getitem ind self =
     (case fetch (dataset self) ''vision'' ind of
        Inl e \<Rightarrow> (Inl e, self)
      | Inr v \<Rightarrow>
     (case fetch (dataset self) ''audio'' ind of
        Inl e \<Rightarrow> (Inl e, self)
      | Inr a \<Rightarrow>
     (case fetch (dataset self) ''text'' ind of
        Inl e \<Rightarrow> (Inl e, self)
      | Inr t \<Rightarrow>
     (case align (aligned self) ind v a t of
        Inl e \<Rightarrow> (Inl e, self)
      | Inr m \<Rightarrow>
     (case fetch (dataset self) ''labels'' ind of
        Inl e \<Rightarrow> (Inl e, self)
      | Inr tmp_label \<Rightarrow>
     (case make_label (task self) tmp_label of
        Inl e \<Rightarrow> (Inl e, self)
      | Inr lab \<Rightarrow> pack ind (z_normalize (z_norm self) m) lab self))))))"
  by (simp add: getitem_def finish_def and_then_def attr_def lift_def split: sum.splits)

lemma pack_unpadded:
  "\<not> flatten self \<Longrightarrow> \<not> max_pad self \<Longrightarrow>
   pack ind (v, a, t) lab self = (Inr (Unpadded (v, a, t, ind, lab)), self)"
  by (simp add: pack_def and_then_def attr_def ret_def)

lemma pack_padded:
  "\<not> flatten self \<Longrightarrow> max_pad self \<Longrightarrow>
   pack ind (v, a, t) lab self =
     (case pad_entry (max_pad_num self) v of
        Inl e \<Rightarrow> (Inl e, self)
      | Inr v' \<Rightarrow>
     (case pad_entry (max_pad_num self) a of
        Inl e \<Rightarrow> (Inl e, self)
      | Inr a' \<Rightarrow>
     (case pad_entry (max_pad_num self) t of
        Inl e \<Rightarrow> (Inl e, self)
      | Inr t' \<Rightarrow> (Inr (Padded (v', a', t', lab)), self))))"
  by (simp add: pack_def and_then_def attr_def ret_def lift_def split: sum.splits)

lemma getitem_padded:
  assumes mp: "max_pad self" and fl: "\<not> flatten self"
      and run: "fst (getitem ind self) = Inr smp"
  shows "0 \<le> max_pad_num self \<and>
         (\<exists>v0 a0 t0 lab.
            fst (getitem ind (self \<lparr> max_pad := False \<rparr>)) = Inr (Unpadded (v0, a0, t0, ind, lab))
            \<and> smp = Padded (fit_length (nat (max_pad_num self)) v0,
                            fit_length (nat (max_pad_num self)) a0,
                            fit_length (nat (max_pad_num self)) t0, lab))"
proof -
  let ?off = "self \<lparr> max_pad := False \<rparr>"
  have fl': "\<not> flatten ?off" "\<not> max_pad ?off"
    using fl by simp_all
  obtain v a t m tl lab where
    s: "fetch (dataset self) ''vision'' ind = Inr v"
       "fetch (dataset self) ''audio'' ind = Inr a"
       "fetch (dataset self) ''text'' ind = Inr t"
       "align (aligned self) ind v a t = Inr m"
       "fetch (dataset self) ''labels'' ind = Inr tl"
       "make_label (task self) tl = Inr lab"
       and p: "fst (pack ind (z_normalize (z_norm self) m) lab self) = Inr smp"
    using run unfolding getitem_steps [of ind self]
    by (auto split: sum.splits)
  obtain v0 a0 t0 where z: "z_normalize (z_norm self) m = (v0, a0, t0)"
    by (cases "z_normalize (z_norm self) m")
  have off: "fst (getitem ind ?off) = Inr (Unpadded (v0, a0, t0, ind, lab))"
    unfolding getitem_steps [of ind ?off]
    using s z by (simp add: pack_unpadded [OF fl'])
  have p': "(case pad_entry (max_pad_num self) v0 of
        Inl e \<Rightarrow> (Inl e, self)
      | Inr v' \<Rightarrow>
     (case pad_entry (max_pad_num self) a0 of
        Inl e \<Rightarrow> (Inl e, self)
      | Inr a' \<Rightarrow>
     (case pad_entry (max_pad_num self) t0 of
        Inl e \<Rightarrow> (Inl e, self)
      | Inr t' \<Rightarrow> (Inr (Padded (v', a', t', lab)), self)))) = (Inr smp, self)"
    using p z pack_padded [OF fl mp, of ind v0 a0 t0 lab]
    by (auto split: sum.splits)
  have n: "0 \<le> max_pad_num self"
  proof (rule ccontr)
    assume "\<not> 0 \<le> max_pad_num self"
    then have "pad_entry (max_pad_num self) v0 = Inl RuntimeError"
      by (intro pad_entry_negative) simp
    then show False using p' by simp
  qed
  show ?thesis
    using n off p' by (simp add: pad_entry_nonnegative fit_length_def)
qed


subsection \<open>Collation\<close>

lemma upt_3: "[0..<3] = [0, 1, 2]"
  by (simp add: upt_rec)

lemma try_map_Inr:
  "try_map f xs = Inr ys \<Longrightarrow> length ys = length xs \<and> (\<forall>i < length xs. f (xs ! i) = Inr (ys ! i))"
proof (induction xs arbitrary: ys)
  case Nil
  then show ?case by simp
next
  case (Cons x xs)
  from Cons.prems obtain y ys' where
    y: "f x = Inr y" and ys': "try_map f xs = Inr ys'" and ys: "ys = y # ys'"
    by (auto split: sum.splits)
  have "length ys' = length xs \<and> (\<forall>i < length xs. f (xs ! i) = Inr (ys' ! i))"
    using ys' by (rule Cons.IH)
  then show ?case
    using y ys by (auto simp: nth_Cons split: nat.splits)
qed

lemma try_map_total:
  "(\<And>x. x \<in> set xs \<Longrightarrow> \<exists>y. f x = Inr y) \<Longrightarrow> \<exists>ys. try_map f xs = Inr ys"
proof (induction xs)
  case Nil
  show ?case by simp
next
  case (Cons x xs)
  obtain y where "f x = Inr y" using Cons.prems [of x] by auto
  moreover obtain ys where "try_map f xs = Inr ys" using Cons by auto
  ultimately show ?case by simp
qed

lemma stack_Inr:
  "stack feature = Inr out \<Longrightarrow>
     out = feature \<and> (\<forall>t \<in> set feature. size0 t = size0 (hd feature) \<and> ncols t = ncols (hd feature))"
  by (cases feature) (auto simp: stack_def list_all_iff split: if_splits)

lemma process_2_batches:
  assumes "process_2 inputs = Inr (vb, ab, tb, lb)"
  shows "vb = map (\<lambda>sample. modalities_2 sample ! 0) inputs
       \<and> ab = map (\<lambda>sample. modalities_2 sample ! 1) inputs
       \<and> tb = map (\<lambda>sample. modalities_2 sample ! 2) inputs"
proof -
  obtain pin where pin: "try_map (\<lambda>i. stack (map (\<lambda>sample. modalities_2 sample ! i) inputs)) [0..<3] = Inr pin"
    and out: "vb = pin ! 0" "ab = pin ! 1" "tb = pin ! 2"
    using assms by (auto simp: process_2_def split: list.splits sum.splits)
  have "\<forall>i < 3. stack (map (\<lambda>sample. modalities_2 sample ! i) inputs) = Inr (pin ! i)"
    using try_map_Inr [OF pin] by simp
  then have "\<forall>i < 3. pin ! i = map (\<lambda>sample. modalities_2 sample ! i) inputs"
    using stack_Inr by blast
  then show ?thesis using out by simp
qed


lemma size0_fit_length: "size0 (fit_length n t) = n"
  by (simp add: fit_length_def size0_def)

text \<open>
  Claim C2 does not hold as stated: the loop runs over \<^verbatim>\<open>range(len(tmp) - 1)\<close>, so the
  label, the last entry of \<^verbatim>\<open>tmp\<close>, is neither cut nor padded. With \<^verbatim>\<open>max_pad_num = 2\<close>
  the label returned still has one row.
\<close>

theorem max_pad_label_counterexample:
  "max_pad ex_padded \<and> max_pad_num ex_padded = 2
   \<and> getitem 0 ex_padded =
       (Inr (Padded (Tensor2 1 [[Fin 5], [Fin 6]], Tensor2 1 [[Fin 0], [Fin 7]],
                     Tensor2 2 [[Fin 0, Fin 3], [Fin 4, Fin 0]], Tensor2 1 [[Fin 1]])), ex_padded)
   \<and> size0 (Tensor2 1 [[Fin 1]]) = 1"
  by (simp add: getitem_def finish_def pack_def and_then_def attr_def lift_def ret_def
      fetch_def np_index_def align_def first_nonzero_def nonzero_def slice_from_def
      z_normalize_def make_label_def pad_entry_def slice_to_def F_pad_bottom_def
      size0_def ex_padded_def ex_self_def ex_clean_def)

text \<open>
  Claim C2, amended. With \<^verbatim>\<open>max_pad\<close> set and \<^verbatim>\<open>flatten\<close> not set, a sample that
  \<^verbatim>\<open>__getitem__\<close> returns is the sample the unpadded path returns at that index with each
  of its three modalities brought to exactly \<^verbatim>\<open>max_pad_num\<close> frames (cut if longer,
  rows of zeros added at the end if shorter) and with the label as it is; \<^verbatim>\<open>max_pad_num\<close>
  is not negative then. So in every batch \<^verbatim>\<open>_process_2\<close> returns over such samples, each
  of the three batch tensors holds one entry per sample, of exactly \<^verbatim>\<open>max_pad_num\<close>
  frames.
\<close>

theorem max_pad_fixed_length:
  assumes "max_pad self" and "\<not> flatten self"
  shows "(\<forall>ind smp. fst (getitem ind self) = Inr smp \<longrightarrow>
            0 \<le> max_pad_num self
            \<and> (\<exists>v0 a0 t0 lab.
                  fst (getitem ind (self \<lparr> max_pad := False \<rparr>)) = Inr (Unpadded (v0, a0, t0, ind, lab))
                  \<and> smp = Padded (fit_length (nat (max_pad_num self)) v0,
                                  fit_length (nat (max_pad_num self)) a0,
                                  fit_length (nat (max_pad_num self)) t0, lab)))
       \<and> (\<forall>inputs vb ab tb lb.
            (\<forall>smp \<in> set inputs. \<exists>ind. fst (getitem ind self) = Inr (Padded smp))
            \<and> process_2 inputs = Inr (vb, ab, tb, lb) \<longrightarrow>
            (\<forall>b \<in> {vb, ab, tb}.
               length b = length inputs \<and> (\<forall>x \<in> set b. size0 x = nat (max_pad_num self))))
       \<and> (\<forall>n t. size0 (fit_length n t) = n \<and> ncols (fit_length n t) = ncols t
              \<and> take (min n (size0 t)) (rows (fit_length n t)) = take n (rows t)
              \<and> drop (size0 t) (rows (fit_length n t)) = replicate (n - size0 t) (zero_row (ncols t)))"
proof -
  have one: "0 \<le> max_pad_num self
            \<and> (\<exists>v0 a0 t0 lab.
                  fst (getitem ind (self \<lparr> max_pad := False \<rparr>)) = Inr (Unpadded (v0, a0, t0, ind, lab))
                  \<and> smp = Padded (fit_length (nat (max_pad_num self)) v0,
                                  fit_length (nat (max_pad_num self)) a0,
                                  fit_length (nat (max_pad_num self)) t0, lab))"
    if "fst (getitem ind self) = Inr smp" for ind smp
    using assms that by (rule getitem_padded)
  have sizes: "size0 (modalities_2 smp ! 0) = nat (max_pad_num self)
             \<and> size0 (modalities_2 smp ! 1) = nat (max_pad_num self)
             \<and> size0 (modalities_2 smp ! 2) = nat (max_pad_num self)"
    if "fst (getitem ind self) = Inr (Padded smp)" for ind smp
    using one [OF that] by (auto simp: size0_fit_length)
  have batch: "\<forall>b \<in> {vb, ab, tb}.
               length b = length inputs \<and> (\<forall>x \<in> set b. size0 x = nat (max_pad_num self))"
    if origin: "\<forall>smp \<in> set inputs. \<exists>ind. fst (getitem ind self) = Inr (Padded smp)"
      and run: "process_2 inputs = Inr (vb, ab, tb, lb)"
    for inputs vb ab tb lb
    using process_2_batches [OF run] origin sizes by auto
  have fit: "size0 (fit_length n t) = n \<and> ncols (fit_length n t) = ncols t
              \<and> take (min n (size0 t)) (rows (fit_length n t)) = take n (rows t)
              \<and> drop (size0 t) (rows (fit_length n t)) = replicate (n - size0 t) (zero_row (ncols t))"
    for n t
    by (auto simp: fit_length_def size0_def min_def)
  show ?thesis
    using one batch fit by blast
qed


theorem max_pad_fixed_length_witness:
  "max_pad ex_padded \<and> \<not> flatten ex_padded
   \<and> fst (getitem 0 ex_padded) =
       Inr (Padded (Tensor2 1 [[Fin 5], [Fin 6]], Tensor2 1 [[Fin 0], [Fin 7]],
                    Tensor2 2 [[Fin 0, Fin 3], [Fin 4, Fin 0]], Tensor2 1 [[Fin 1]]))
   \<and> fst (getitem 2 ex_padded) =
       Inr (Padded (Tensor2 1 [[Fin 0], [Fin 0]], Tensor2 1 [[Fin 1], [Fin 2]],
                    Tensor2 2 [[Fin 1, Fin 0], [Fin 0, Fin 0]], Tensor2 1 [[Fin 2]]))
   \<and> process_2
         [(Tensor2 1 [[Fin 5], [Fin 6]], Tensor2 1 [[Fin 0], [Fin 7]],
           Tensor2 2 [[Fin 0, Fin 3], [Fin 4, Fin 0]], Tensor2 1 [[Fin 1]]),
          (Tensor2 1 [[Fin 0], [Fin 0]], Tensor2 1 [[Fin 1], [Fin 2]],
           Tensor2 2 [[Fin 1, Fin 0], [Fin 0, Fin 0]], Tensor2 1 [[Fin 2]])] =
       Inr ([Tensor2 1 [[Fin 5], [Fin 6]], Tensor2 1 [[Fin 0], [Fin 0]]],
            [Tensor2 1 [[Fin 0], [Fin 7]], Tensor2 1 [[Fin 1], [Fin 2]]],
            [Tensor2 2 [[Fin 0, Fin 3], [Fin 4, Fin 0]], Tensor2 2 [[Fin 1, Fin 0], [Fin 0, Fin 0]]],
            Tensor2 1 [[Fin 1], [Fin 2]])
   \<and> 0 \<le> max_pad_num ex_padded
   \<and> list_all (\<lambda>x. size0 x = nat (max_pad_num ex_padded))
        [Tensor2 1 [[Fin 5], [Fin 6]], Tensor2 1 [[Fin 0], [Fin 0]]]"
proof -
  define s0 where "s0 = (Tensor2 1 [[Fin 5], [Fin 6]], Tensor2 1 [[Fin 0], [Fin 7]],
           Tensor2 2 [[Fin 0, Fin 3], [Fin 4, Fin 0]], Tensor2 1 [[Fin 1]])"
  define s2 where "s2 = (Tensor2 1 [[Fin 0], [Fin 0]], Tensor2 1 [[Fin 1], [Fin 2]],
           Tensor2 2 [[Fin 1, Fin 0], [Fin 0, Fin 0]], Tensor2 1 [[Fin 2]])"
  have h1: "max_pad ex_padded" and h2: "\<not> flatten ex_padded"
    by (simp_all add: ex_padded_def ex_self_def)
  have g0: "fst (getitem 0 ex_padded) = Inr (Padded s0)"
    by (simp add: getitem_def finish_def pack_def and_then_def attr_def lift_def ret_def
      fetch_def np_index_def align_def first_nonzero_def nonzero_def slice_from_def
      z_normalize_def make_label_def pad_entry_def slice_to_def F_pad_bottom_def
      size0_def ex_padded_def ex_self_def ex_clean_def s0_def)
  have g2: "fst (getitem 2 ex_padded) = Inr (Padded s2)"
    by (simp add: getitem_def finish_def pack_def and_then_def attr_def lift_def ret_def
      fetch_def np_index_def align_def first_nonzero_def nonzero_def slice_from_def
      z_normalize_def make_label_def pad_entry_def slice_to_def F_pad_bottom_def
      size0_def ex_padded_def ex_self_def ex_clean_def s2_def)
  have p: "process_2 [s0, s2] =
       Inr ([Tensor2 1 [[Fin 5], [Fin 6]], Tensor2 1 [[Fin 0], [Fin 0]]],
            [Tensor2 1 [[Fin 0], [Fin 7]], Tensor2 1 [[Fin 1], [Fin 2]]],
            [Tensor2 2 [[Fin 0, Fin 3], [Fin 4, Fin 0]], Tensor2 2 [[Fin 1, Fin 0], [Fin 0, Fin 0]]],
            Tensor2 1 [[Fin 1], [Fin 2]])"
    by (simp add: process_2_def upt_3 stack_def collect_label_def label_column_def
        size0_def elems_def s0_def s2_def)
  have src: "\<forall>smp \<in> set [s0, s2]. \<exists>ind. fst (getitem ind ex_padded) = Inr (Padded smp)"
    using g0 g2 by auto
  have "0 \<le> max_pad_num ex_padded"
    using max_pad_fixed_length [OF h1 h2] g0 by blast
  moreover have "\<forall>x \<in> set [Tensor2 1 [[Fin 5], [Fin 6]], Tensor2 1 [[Fin 0], [Fin 0]]].
                   size0 x = nat (max_pad_num ex_padded)"
    using max_pad_fixed_length [OF h1 h2] src p by blast
  ultimately show ?thesis
    using h1 h2 g0 g2 p unfolding s0_def s2_def list_all_iff by blast
qed


section \<open>Properties of the collators\<close>

subsection \<open>Padding a batch\<close>

lemma max_len_ge: "n \<in> set ns \<Longrightarrow> n \<le> max_len ns"
  by (induction ns) (auto simp: max_len_def)

lemma max_len_Max: "ns \<noteq> [] \<Longrightarrow> max_len ns = Max (set ns)"
proof (induction ns)
  case Nil
  then show ?case by simp
next
  case (Cons n ns)
  show ?case
  proof (cases "ns = []")
    case True
    then show ?thesis by (simp add: max_len_def)
  next
    case False
    then have "max_len ns = Max (set ns)" by (rule Cons.IH)
    then show ?thesis using False by (simp add: max_len_def)
  qed
qed

lemma copy_rows_Inr:
  "copy_rows D t = Inr rs \<Longrightarrow> length rs = size0 t \<and> (ncols t = D \<longrightarrow> rs = rows t)"
  by (auto simp: copy_rows_def size0_def split: if_splits)

lemma pad_sequence_Cons:
  "pad_sequence (s0 # rest) =
     try_map (\<lambda>t. case copy_rows (ncols s0) t of
                     Inl e \<Rightarrow> Inl e
                   | Inr rs \<Rightarrow> Inr (Tensor2 (ncols s0)
                       (rs @ replicate (max_len (map size0 (s0 # rest)) - length rs) (zero_row (ncols s0)))))
             (s0 # rest)"
  by (simp only: pad_sequence_def list.case Let_def)

lemma pad_sequence_Inr:
  assumes "pad_sequence seqs = Inr out"
  shows "length out = length seqs
       \<and> (\<forall>b < length seqs.
            ncols (out ! b) = ncols (hd seqs)
          \<and> size0 (out ! b) = max_len (map size0 seqs)
          \<and> (ncols (seqs ! b) = ncols (hd seqs) \<longrightarrow>
               take (size0 (seqs ! b)) (rows (out ! b)) = rows (seqs ! b))
          \<and> (\<forall>t. size0 (seqs ! b) \<le> t \<and> t < max_len (map size0 seqs) \<longrightarrow>
                 rows (out ! b) ! t = zero_row (ncols (hd seqs))))"
proof -
  define D where "D = ncols (hd seqs)"
  define L where "L = max_len (map size0 seqs)"
  have run: "try_map (\<lambda>t. case copy_rows D t of
                              Inl e \<Rightarrow> Inl e
                            | Inr rs \<Rightarrow> Inr (Tensor2 D (rs @ replicate (L - length rs) (zero_row D))))
                      seqs = Inr out"
  proof (cases seqs)
    case Nil
    then show ?thesis using assms by (simp add: pad_sequence_def)
  next
    case (Cons s0 rest)
    then have "D = ncols s0" by (simp add: D_def)
    then show ?thesis
      using assms unfolding L_def Cons pad_sequence_Cons by (simp only:)
  qed
  have len: "length out = length seqs"
    using try_map_Inr [OF run] by simp
  have each: "ncols (out ! b) = D \<and> size0 (out ! b) = L
          \<and> (ncols (seqs ! b) = D \<longrightarrow> take (size0 (seqs ! b)) (rows (out ! b)) = rows (seqs ! b))
          \<and> (\<forall>t. size0 (seqs ! b) \<le> t \<and> t < L \<longrightarrow> rows (out ! b) ! t = zero_row D)"
    if b: "b < length seqs" for b
  proof -
    have "(case copy_rows D (seqs ! b) of
             Inl e \<Rightarrow> Inl e
           | Inr rs \<Rightarrow> Inr (Tensor2 D (rs @ replicate (L - length rs) (zero_row D)))) = Inr (out ! b)"
      using try_map_Inr [OF run] b by simp
    then obtain rs where rs: "copy_rows D (seqs ! b) = Inr rs"
      and ob: "out ! b = Tensor2 D (rs @ replicate (L - length rs) (zero_row D))"
      by (auto split: sum.splits)
    have lrs: "length rs = size0 (seqs ! b)" and same: "ncols (seqs ! b) = D \<longrightarrow> rs = rows (seqs ! b)"
      using copy_rows_Inr [OF rs] by simp_all
    have "size0 (seqs ! b) \<in> set (map size0 seqs)"
      using b by simp
    then have le: "length rs \<le> L"
      unfolding L_def lrs by (rule max_len_ge)
    show ?thesis
      using le lrs same by (auto simp: ob size0_def nth_append)
  qed
  show ?thesis
    using len each unfolding D_def L_def by blast
qed

lemma pad_sequence_total:
  assumes "seqs \<noteq> []" and "\<forall>t \<in> set seqs. ncols t = ncols (hd seqs)"
  shows "\<exists>out. pad_sequence seqs = Inr out"
proof -
  obtain s0 rest where seqs: "seqs = s0 # rest"
    using assms(1) by (cases seqs) auto
  have "\<exists>ys. try_map (\<lambda>t. case copy_rows (ncols s0) t of
                              Inl e \<Rightarrow> Inl e
                            | Inr rs \<Rightarrow> Inr (Tensor2 (ncols s0)
                                (rs @ replicate (max_len (map size0 seqs) - length rs) (zero_row (ncols s0)))))
                      seqs = Inr ys"
  proof (rule try_map_total)
    fix x assume "x \<in> set seqs"
    then have "ncols x = ncols s0" using assms(2) seqs by auto
    then show "\<exists>y. (case copy_rows (ncols s0) x of
                              Inl e \<Rightarrow> Inl e
                            | Inr rs \<Rightarrow> Inr (Tensor2 (ncols s0)
                                (rs @ replicate (max_len (map size0 seqs) - length rs) (zero_row (ncols s0))))) = Inr y"
      by (simp add: copy_rows_def)
  qed
  then show ?thesis
    unfolding seqs pad_sequence_Cons by (simp only:)
qed


subsection \<open>Labels\<close>


lemma label_column_total:
  assumes "\<forall>c \<in> set labels. \<exists>x. entries c = [x]"
  shows "\<exists>lc. label_column labels = Inr lc"
proof -
  have "\<exists>rs. try_map (\<lambda>c. case entries c of [x] \<Rightarrow> Inr [x] | _ \<Rightarrow> Inl ValueError) labels = Inr rs"
    using assms by (intro try_map_total) auto
  then show ?thesis by (auto simp: label_column_def)
qed

lemma first_row_reshape:
  "0 < n \<Longrightarrow> reshape n m t = Inr r \<Longrightarrow> first_row r = Inr (take m (elems t))"
  by (auto simp: reshape_def first_row_def upt_conv_Cons split: if_splits)


lemma collect_label_narrow: "\<not> 1 < ncols l \<Longrightarrow> collect_label l = Inr (Mat l)"
  by (simp add: collect_label_def)






subsection \<open>The collators\<close>

lemma process_1_Inr:
  assumes "process_1 inputs = Inr (pin, pl, ix, lc)"
  shows "inputs \<noteq> [] \<and> length pin = 3
       \<and> (\<forall>m < 3. pad_sequence (map (\<lambda>sample. modalities_1 sample ! m) inputs) = Inr (pin ! m))
       \<and> pl = map (\<lambda>i. map (\<lambda>sample. size0 (modalities_1 sample ! i)) inputs) [0..<3]
       \<and> ix = map (\<lambda>sample. [ind_1 sample]) inputs
       \<and> (\<exists>labels. try_map (\<lambda>sample. collect_label (label_1 sample)) inputs = Inr labels
                  \<and> label_column labels = Inr lc)"
proof -
  obtain x xs where inputs: "inputs = x # xs"
    using assms by (cases inputs) (auto simp: process_1_def)
  obtain labels where
    pad: "try_map (\<lambda>i. pad_sequence (map (\<lambda>sample. modalities_1 sample ! i) inputs)) [0..<3] = Inr pin"
    and pl: "pl = map (\<lambda>i. map (\<lambda>sample. size0 (modalities_1 sample ! i)) inputs) [0..<3]"
    and ix: "ix = map (\<lambda>sample. [ind_1 sample]) inputs"
    and la: "try_map (\<lambda>sample. collect_label (label_1 sample)) inputs = Inr labels"
    and lc: "label_column labels = Inr lc"
    using assms unfolding process_1_def inputs list.case Let_def
    by (auto split: sum.splits)
  have "length pin = 3 \<and> (\<forall>m < 3. pad_sequence (map (\<lambda>sample. modalities_1 sample ! m) inputs) = Inr (pin ! m))"
    using try_map_Inr [OF pad] by simp
  then show ?thesis
    using inputs pl ix la lc by blast
qed





lemma collect_label_row:
  assumes one: "size0 l = 1" and wide: "1 \<le> ncols l" and wf: "wf_tensor l"
  shows "\<exists>c x. collect_label l = Inr c \<and> entries c = [x]"
proof -
  obtain r where r: "rows l = [r]"
    using one by (auto simp: size0_def length_Suc_conv)
  have lr: "length r = ncols l"
    using wf r by (simp add: wf_tensor_def)
  then obtain x xs where rx: "r = x # xs"
    using wide by (cases r) auto
  have el: "elems l = r"
    using r by (simp add: elems_def)
  show ?thesis
  proof (cases "1 < ncols l")
    case True
    have "reshape (ncols l) (size0 l) l =
            Inr (Tensor2 (size0 l) (map (\<lambda>i. take (size0 l) (drop (i * size0 l) (elems l))) [0..<ncols l]))"
      using one el lr by (simp add: reshape_def)
    moreover from this have "first_row (Tensor2 (size0 l) (map (\<lambda>i. take (size0 l) (drop (i * size0 l) (elems l))) [0..<ncols l]))
                 = Inr (take (size0 l) (elems l))"
      using True by (intro first_row_reshape [of "ncols l" "size0 l" l]) auto
    ultimately have "collect_label l = Inr (Vec (take (size0 l) (elems l)))"
      using True by (simp add: collect_label_def)
    then show ?thesis
      using one el rx by simp
  next
    case False
    then have "ncols l = 1" using wide by simp
    then have "r = [x]" using lr rx by simp
    then show ?thesis
      using False el by (simp add: collect_label_narrow)
  qed
qed


lemma process_1_modality:
  assumes ne: "inputs \<noteq> []" and m: "m < 3"
      and pad: "pad_sequence (map (\<lambda>sample. modalities_1 sample ! m) inputs) = Inr batch"
      and b: "b < length inputs"
  shows "length batch = length inputs
       \<and> size0 (batch ! b) = Max (set (map (\<lambda>sample. size0 (modalities_1 sample ! m)) inputs))
       \<and> (\<forall>t. size0 (modalities_1 (inputs ! b) ! m) \<le> t
               \<and> t < Max (set (map (\<lambda>sample. size0 (modalities_1 sample ! m)) inputs)) \<longrightarrow>
               rows (batch ! b) ! t = zero_row (ncols (batch ! b)))
       \<and> (ncols (modalities_1 (inputs ! b) ! m) = ncols (modalities_1 (hd inputs) ! m) \<longrightarrow>
             take (size0 (modalities_1 (inputs ! b) ! m)) (rows (batch ! b))
               = rows (modalities_1 (inputs ! b) ! m))"
proof -
  define seqs where "seqs = map (\<lambda>sample. modalities_1 sample ! m) inputs"
  have nes: "seqs \<noteq> []" and ls: "length seqs = length inputs"
    using ne by (simp_all add: seqs_def)
  have sizes: "map size0 seqs = map (\<lambda>sample. size0 (modalities_1 sample ! m)) inputs"
    by (simp add: seqs_def comp_def)
  have "map size0 seqs \<noteq> []"
    using nes by simp
  then have mx: "max_len (map size0 seqs) = Max (set (map size0 seqs))"
    by (rule max_len_Max)
  have hds: "hd seqs = modalities_1 (hd inputs) ! m"
    using ne by (simp add: seqs_def hd_map)
  have nth: "seqs ! b = modalities_1 (inputs ! b) ! m"
    using b by (simp add: seqs_def)
  have b': "b < length seqs"
    using b ls by simp
  have run: "pad_sequence seqs = Inr batch"
    using pad by (simp only: seqs_def)
  note facts = pad_sequence_Inr [OF run]
  have len: "length batch = length seqs"
    using facts by (rule conjunct1)
  have at: "ncols (batch ! b) = ncols (hd seqs)
          \<and> size0 (batch ! b) = max_len (map size0 seqs)
          \<and> (ncols (seqs ! b) = ncols (hd seqs) \<longrightarrow>
               take (size0 (seqs ! b)) (rows (batch ! b)) = rows (seqs ! b))
          \<and> (\<forall>t. size0 (seqs ! b) \<le> t \<and> t < max_len (map size0 seqs) \<longrightarrow>
                 rows (batch ! b) ! t = zero_row (ncols (hd seqs)))"
    using facts [THEN conjunct2, THEN spec, THEN mp, OF b'] .
  have w: "ncols (batch ! b) = ncols (hd seqs)"
    using at by (rule conjunct1)
  show ?thesis
    unfolding sizes [symmetric] nth [symmetric] hds [symmetric] mx [symmetric] ls [symmetric]
    using len at by (simp only: w) blast
qed


lemma uniform_width:
  "uniform_batch inputs \<Longrightarrow> s \<in> set inputs \<Longrightarrow> m < 3 \<Longrightarrow>
   ncols (modalities_1 s ! m) = ncols (modalities_1 (hd inputs) ! m)"
  unfolding uniform_batch_def by blast

lemma uniform_label:
  "uniform_batch inputs \<Longrightarrow> s \<in> set inputs \<Longrightarrow>
   size0 (label_1 s) = 1 \<and> 1 \<le> ncols (label_1 s) \<and> wf_tensor (label_1 s)"
  unfolding uniform_batch_def by blast

lemma process_1_total:
  assumes ne: "inputs \<noteq> []" and u: "uniform_batch inputs"
  shows "\<exists>out. process_1 inputs = Inr out"
proof -
  obtain x xs where inputs: "inputs = x # xs"
    using ne by (cases inputs) auto
  have "\<exists>pin. try_map (\<lambda>i. pad_sequence (map (\<lambda>sample. modalities_1 sample ! i) inputs)) [0..<3] = Inr pin"
  proof (rule try_map_total)
    fix i :: nat assume "i \<in> set [0..<3]"
    then have i: "i < 3" by simp
    have hdm: "hd (map (\<lambda>sample. modalities_1 sample ! i) inputs) = modalities_1 (hd inputs) ! i"
      using ne by (simp add: hd_map)
    have "\<forall>t \<in> set (map (\<lambda>sample. modalities_1 sample ! i) inputs).
            ncols t = ncols (hd (map (\<lambda>sample. modalities_1 sample ! i) inputs))"
      unfolding hdm using uniform_width [OF u _ i] by (simp add: image_iff)
    moreover have "map (\<lambda>sample. modalities_1 sample ! i) inputs \<noteq> []"
      using ne by simp
    ultimately show "\<exists>y. pad_sequence (map (\<lambda>sample. modalities_1 sample ! i) inputs) = Inr y"
      using pad_sequence_total by blast
  qed
  then obtain pin where pin: "try_map (\<lambda>i. pad_sequence (map (\<lambda>sample. modalities_1 sample ! i) inputs)) [0..<3] = Inr pin"
    by blast
  have rowl: "\<exists>c x. collect_label (label_1 s) = Inr c \<and> entries c = [x]" if "s \<in> set inputs" for s
    using uniform_label [OF u that] collect_label_row [of "label_1 s"] by blast
  have "\<exists>labels. try_map (\<lambda>sample. collect_label (label_1 sample)) inputs = Inr labels"
  proof (rule try_map_total)
    fix s assume "s \<in> set inputs"
    then show "\<exists>y. collect_label (label_1 s) = Inr y"
      using rowl by blast
  qed
  then obtain labels where la: "try_map (\<lambda>sample. collect_label (label_1 sample)) inputs = Inr labels"
    by blast
  have "\<forall>c \<in> set labels. \<exists>x. entries c = [x]"
  proof
    fix c assume "c \<in> set labels"
    then obtain b where b: "b < length labels" "labels ! b = c"
      by (auto simp: in_set_conv_nth)
    have lb: "length labels = length inputs"
      using try_map_Inr [OF la] by (rule conjunct1)
    have "collect_label (label_1 (inputs ! b)) = Inr (labels ! b)"
      using try_map_Inr [OF la, THEN conjunct2, THEN spec, THEN mp, of b] b(1) lb by simp
    moreover have "inputs ! b \<in> set inputs"
      using b(1) lb by simp
    ultimately show "\<exists>x. entries c = [x]"
      using rowl [of "inputs ! b"] b(2) by auto
  qed
  then obtain lc where lc: "label_column labels = Inr lc"
    using label_column_total by blast
  have "process_1 (x # xs) = Inr (pin, map (\<lambda>i. map (\<lambda>sample. size0 (modalities_1 sample ! i)) (x # xs)) [0..<3],
                                 map (\<lambda>sample. [ind_1 sample]) (x # xs), lc)"
    using pin la lc unfolding inputs
    by (simp only: process_1_def list.case Let_def sum.case)
  then show ?thesis unfolding inputs by blast
qed


text \<open>
  Claim C1. For a non-empty list of unpadded samples, whenever \<^verbatim>\<open>_process_1\<close> returns, it
  returns three batch tensors and three length tensors, and for each modality: the
  batch holds one entry per sample; the length tensor holds the samples' own time-axis
  lengths; every entry of the batch has as many frames as the longest sample of the
  batch; each frame past a sample's own length is a row of zeros; and the frames before
  it are the sample's own (for a sample of the width of the first). On a batch as one
  split yields it (one width per modality, labels of one row) \<^verbatim>\<open>_process_1\<close> does return.
\<close>

theorem process_1_pads:
  assumes "inputs \<noteq> []"
  shows "(\<forall>pin pl ix lc. process_1 inputs = Inr (pin, pl, ix, lc) \<longrightarrow>
            length pin = 3 \<and> length pl = 3
          \<and> (\<forall>m < 3.
                length (pin ! m) = length inputs
              \<and> pl ! m = map (\<lambda>sample. size0 (modalities_1 sample ! m)) inputs
              \<and> (\<forall>b < length inputs.
                    size0 (pin ! m ! b) = Max (set (pl ! m))
                  \<and> (\<forall>t. size0 (modalities_1 (inputs ! b) ! m) \<le> t \<and> t < Max (set (pl ! m)) \<longrightarrow>
                         rows (pin ! m ! b) ! t = zero_row (ncols (pin ! m ! b)))
                  \<and> (ncols (modalities_1 (inputs ! b) ! m) = ncols (modalities_1 (hd inputs) ! m) \<longrightarrow>
                         take (size0 (modalities_1 (inputs ! b) ! m)) (rows (pin ! m ! b))
                           = rows (modalities_1 (inputs ! b) ! m)))))
       \<and> (uniform_batch inputs \<longrightarrow> (\<exists>out. process_1 inputs = Inr out))
       \<and> (\<forall>D. length (zero_row D) = D \<and> list_all (\<lambda>x. x = Fin 0) (zero_row D))"
proof -
  have shape: "\<forall>pin pl ix lc. process_1 inputs = Inr (pin, pl, ix, lc) \<longrightarrow>
            length pin = 3 \<and> length pl = 3
          \<and> (\<forall>m < 3.
                length (pin ! m) = length inputs
              \<and> pl ! m = map (\<lambda>sample. size0 (modalities_1 sample ! m)) inputs
              \<and> (\<forall>b < length inputs.
                    size0 (pin ! m ! b) = Max (set (pl ! m))
                  \<and> (\<forall>t. size0 (modalities_1 (inputs ! b) ! m) \<le> t \<and> t < Max (set (pl ! m)) \<longrightarrow>
                         rows (pin ! m ! b) ! t = zero_row (ncols (pin ! m ! b)))
                  \<and> (ncols (modalities_1 (inputs ! b) ! m) = ncols (modalities_1 (hd inputs) ! m) \<longrightarrow>
                         take (size0 (modalities_1 (inputs ! b) ! m)) (rows (pin ! m ! b))
                           = rows (modalities_1 (inputs ! b) ! m))))"
  proof (intro allI impI)
    fix pin pl ix lc
    assume run: "process_1 inputs = Inr (pin, pl, ix, lc)"
    have lp: "length pin = 3"
      and pads: "\<forall>m < 3. pad_sequence (map (\<lambda>sample. modalities_1 sample ! m) inputs) = Inr (pin ! m)"
      and pl: "pl = map (\<lambda>i. map (\<lambda>sample. size0 (modalities_1 sample ! i)) inputs) [0..<3]"
      using process_1_Inr [OF run] by blast+
    have lpl: "length pl = 3"
      by (simp add: pl)
    have each: "\<forall>m < 3.
                length (pin ! m) = length inputs
              \<and> pl ! m = map (\<lambda>sample. size0 (modalities_1 sample ! m)) inputs
              \<and> (\<forall>b < length inputs.
                    size0 (pin ! m ! b) = Max (set (pl ! m))
                  \<and> (\<forall>t. size0 (modalities_1 (inputs ! b) ! m) \<le> t \<and> t < Max (set (pl ! m)) \<longrightarrow>
                         rows (pin ! m ! b) ! t = zero_row (ncols (pin ! m ! b)))
                  \<and> (ncols (modalities_1 (inputs ! b) ! m) = ncols (modalities_1 (hd inputs) ! m) \<longrightarrow>
                         take (size0 (modalities_1 (inputs ! b) ! m)) (rows (pin ! m ! b))
                           = rows (modalities_1 (inputs ! b) ! m)))"
    proof (intro allI impI)
      fix m :: nat
      assume m: "m < 3"
      have pad: "pad_sequence (map (\<lambda>sample. modalities_1 sample ! m) inputs) = Inr (pin ! m)"
        using pads m by blast
      have plm: "pl ! m = map (\<lambda>sample. size0 (modalities_1 sample ! m)) inputs"
        using m by (simp add: pl)
      have len: "length (pin ! m) = length inputs"
        using pad_sequence_Inr [OF pad, THEN conjunct1] by simp
      have inner: "\<forall>b < length inputs.
                    size0 (pin ! m ! b) = Max (set (pl ! m))
                  \<and> (\<forall>t. size0 (modalities_1 (inputs ! b) ! m) \<le> t \<and> t < Max (set (pl ! m)) \<longrightarrow>
                         rows (pin ! m ! b) ! t = zero_row (ncols (pin ! m ! b)))
                  \<and> (ncols (modalities_1 (inputs ! b) ! m) = ncols (modalities_1 (hd inputs) ! m) \<longrightarrow>
                         take (size0 (modalities_1 (inputs ! b) ! m)) (rows (pin ! m ! b))
                           = rows (modalities_1 (inputs ! b) ! m))"
      proof (intro allI impI)
        fix b assume b: "b < length inputs"
        show "size0 (pin ! m ! b) = Max (set (pl ! m))
                  \<and> (\<forall>t. size0 (modalities_1 (inputs ! b) ! m) \<le> t \<and> t < Max (set (pl ! m)) \<longrightarrow>
                         rows (pin ! m ! b) ! t = zero_row (ncols (pin ! m ! b)))
                  \<and> (ncols (modalities_1 (inputs ! b) ! m) = ncols (modalities_1 (hd inputs) ! m) \<longrightarrow>
                         take (size0 (modalities_1 (inputs ! b) ! m)) (rows (pin ! m ! b))
                           = rows (modalities_1 (inputs ! b) ! m))"
          unfolding plm by (rule process_1_modality [OF assms m pad b, THEN conjunct2])
      qed
      show "length (pin ! m) = length inputs
              \<and> pl ! m = map (\<lambda>sample. size0 (modalities_1 sample ! m)) inputs
              \<and> (\<forall>b < length inputs.
                    size0 (pin ! m ! b) = Max (set (pl ! m))
                  \<and> (\<forall>t. size0 (modalities_1 (inputs ! b) ! m) \<le> t \<and> t < Max (set (pl ! m)) \<longrightarrow>
                         rows (pin ! m ! b) ! t = zero_row (ncols (pin ! m ! b)))
                  \<and> (ncols (modalities_1 (inputs ! b) ! m) = ncols (modalities_1 (hd inputs) ! m) \<longrightarrow>
                         take (size0 (modalities_1 (inputs ! b) ! m)) (rows (pin ! m ! b))
                           = rows (modalities_1 (inputs ! b) ! m)))"
        by (rule conjI [OF len conjI [OF plm inner]])
    qed
    show "length pin = 3 \<and> length pl = 3
          \<and> (\<forall>m < 3.
                length (pin ! m) = length inputs
              \<and> pl ! m = map (\<lambda>sample. size0 (modalities_1 sample ! m)) inputs
              \<and> (\<forall>b < length inputs.
                    size0 (pin ! m ! b) = Max (set (pl ! m))
                  \<and> (\<forall>t. size0 (modalities_1 (inputs ! b) ! m) \<le> t \<and> t < Max (set (pl ! m)) \<longrightarrow>
                         rows (pin ! m ! b) ! t = zero_row (ncols (pin ! m ! b)))
                  \<and> (ncols (modalities_1 (inputs ! b) ! m) = ncols (modalities_1 (hd inputs) ! m) \<longrightarrow>
                         take (size0 (modalities_1 (inputs ! b) ! m)) (rows (pin ! m ! b))
                           = rows (modalities_1 (inputs ! b) ! m))))"
      by (rule conjI [OF lp conjI [OF lpl each]])
  qed
  have total: "uniform_batch inputs \<longrightarrow> (\<exists>out. process_1 inputs = Inr out)"
    using process_1_total [OF assms] by blast
  have zero: "\<forall>D. length (zero_row D) = D \<and> list_all (\<lambda>x. x = Fin 0) (zero_row D)"
    by (simp add: zero_row_def list_all_iff)
  show ?thesis
    by (rule conjI [OF shape conjI [OF total zero]])
qed


lemma all_less_3: "(\<forall>m < 3. P m) \<longleftrightarrow> P 0 \<and> P 1 \<and> P (2::nat)"
proof -
  have "m < 3 \<longleftrightarrow> m = 0 \<or> m = 1 \<or> m = 2" for m :: nat
    by arith
  then show ?thesis by auto
qed

theorem process_1_pads_witness:
  "[ex_short, ex_long] \<noteq> [] \<and> uniform_batch [ex_short, ex_long]
   \<and> process_1 [ex_short, ex_long] =
       Inr ([[Tensor2 1 [[Fin 5], [Fin 6], [Fin 0]], Tensor2 1 [[Fin 0], [Fin 0], [Fin 0]]],
             [Tensor2 1 [[Fin 0], [Fin 7], [Fin 0]], Tensor2 1 [[Fin 1], [Fin 2], [Fin 3]]],
             [Tensor2 2 [[Fin 0, Fin 3], [Fin 4, Fin 0], [Fin 0, Fin 0]],
              Tensor2 2 [[Fin 1, Fin 0], [Fin 0, Fin 0], [Fin 0, Fin 0]]]],
            [[2, 3], [2, 3], [2, 3]],
            [[0], [2]],
            Tensor2 1 [[Fin 1], [Fin 2]])
   \<and> (\<exists>out. process_1 [ex_short, ex_long] = Inr out)"
proof -
  have ne: "[ex_short, ex_long] \<noteq> []"
    by simp
  have u: "uniform_batch [ex_short, ex_long]"
    by (simp add: uniform_batch_def all_less_3 ex_short_def ex_long_def size0_def wf_tensor_def)
  have run: "process_1 [ex_short, ex_long] =
       Inr ([[Tensor2 1 [[Fin 5], [Fin 6], [Fin 0]], Tensor2 1 [[Fin 0], [Fin 0], [Fin 0]]],
             [Tensor2 1 [[Fin 0], [Fin 7], [Fin 0]], Tensor2 1 [[Fin 1], [Fin 2], [Fin 3]]],
             [Tensor2 2 [[Fin 0, Fin 3], [Fin 4, Fin 0], [Fin 0, Fin 0]],
              Tensor2 2 [[Fin 1, Fin 0], [Fin 0, Fin 0], [Fin 0, Fin 0]]]],
            [[2, 3], [2, 3], [2, 3]],
            [[0], [2]],
            Tensor2 1 [[Fin 1], [Fin 2]])"
    by (simp add: process_1_def upt_3 pad_sequence_def copy_rows_def max_len_def zero_row_def
        collect_label_def label_column_def size0_def elems_def ex_short_def ex_long_def
        numeral_2_eq_2)
  have "\<exists>out. process_1 [ex_short, ex_long] = Inr out"
    using process_1_pads [OF ne] u by blast
  then show ?thesis
    using ne u run by blast
qed






subsection \<open>The collator of the discrete family\<close>

lemma sort_three:
  assumes "length (token_ids x1) = 2" and "length (token_ids x2) = 5" and "length (token_ids x3) = 3"
  shows "sort_key (\<lambda>x. length (token_ids x)) [x1, x2, x3] = [x1, x3, x2]"
  using assms by (simp add: sort_key_def)

lemma three_samples:
  assumes "map (\<lambda>x. length (token_ids x)) batch = [2, 5, 3]"
  obtains x1 x2 x3 where "batch = [x1, x2, x3]"
    and "length (token_ids x1) = 2" and "length (token_ids x2) = 5" and "length (token_ids x3) = 3"
  using assms by (auto simp: map_eq_Cons_conv)

lemma upt_6: "[0..<6] = [0, 1, 2, 3, 4, 5]"
  by (simp add: upt_rec)

lemma collate_fn_three:
  assumes l: "length (token_ids x1) = 2" "length (token_ids x2) = 5" "length (token_ids x3) = 3"
      and run: "collate_fn [x1, x2, x3] = Inr out"
  shows "batch_lengths out = [3, 4, 6]
       \<and> batch_mask out = [[True, True, True, False, False, False],
                           [True, True, True, True, False, False],
                           [True, True, True, True, True, True]]
       \<and> batch_text out = [0 # token_ids x1 @ [0, 0, 0], 0 # token_ids x3 @ [0, 0], 0 # token_ids x2]
       \<and> batch_mask out = map (\<lambda>n. map (\<lambda>t. t < n) [0..<6]) (batch_lengths out)"
proof -
  have pad: "pad_sequence_1d (map token_ids [x1, x3, x2])
               = Inr [token_ids x1 @ [0, 0, 0], token_ids x3 @ [0, 0], token_ids x2]"
    using l by (simp add: pad_sequence_1d_def max_len_def numeral_2_eq_2 numeral_3_eq_3)
  obtain visual0 acoustic0 where
    "out = (map (\<lambda>row. 0 # row) [token_ids x1 @ [0, 0, 0], token_ids x3 @ [0, 0], token_ids x2],
            map (\<lambda>t. Tensor2 (ncols t) (zero_row (ncols t) # rows t)) visual0,
            map (\<lambda>t. Tensor2 (ncols t) (zero_row (ncols t) # rows t)) acoustic0,
            map label [x1, x3, x2],
            map (\<lambda>n. n + 1) (map (\<lambda>sample. length (token_ids sample)) [x1, x3, x2]),
            None, None,
            map (\<lambda>n. map (\<lambda>t. t < n) [0..<length (hd (map (\<lambda>row. 0 # row)
                   [token_ids x1 @ [0, 0, 0], token_ids x3 @ [0, 0], token_ids x2]))])
                (map (\<lambda>n. n + 1) (map (\<lambda>sample. length (token_ids sample)) [x1, x3, x2])))"
    using run unfolding collate_fn_def sort_three [OF l] Let_def pad sum.case
    by (auto split: sum.splits)
  then show ?thesis
    using l by (simp add: upt_6)
qed


lemma collate_fn_total_three:
  assumes l: "length (token_ids x1) = 2" "length (token_ids x2) = 5" "length (token_ids x3) = 3"
      and w: "\<forall>x \<in> set [x1, x2, x3].
                ncols (video_features x) = ncols (video_features x1)
              \<and> ncols (audio_features x) = ncols (audio_features x1)"
  shows "\<exists>out. collate_fn [x1, x2, x3] = Inr out"
proof -
  have pad: "pad_sequence_1d (map token_ids [x1, x3, x2])
               = Inr [token_ids x1 @ [0, 0, 0], token_ids x3 @ [0, 0], token_ids x2]"
    using l by (simp add: pad_sequence_1d_def max_len_def numeral_2_eq_2 numeral_3_eq_3)
  have "\<exists>v. pad_sequence (map video_features [x1, x3, x2]) = Inr v"
    using w by (intro pad_sequence_total) simp_all
  then obtain v where v: "pad_sequence (map video_features [x1, x3, x2]) = Inr v"
    by blast
  have "\<exists>a. pad_sequence (map audio_features [x1, x3, x2]) = Inr a"
    using w by (intro pad_sequence_total) simp_all
  then obtain a where a: "pad_sequence (map audio_features [x1, x3, x2]) = Inr a"
    by blast
  show ?thesis
    unfolding collate_fn_def sort_three [OF l] Let_def pad v a sum.case
    by blast
qed

text \<open>
  Claim C3 does not hold as stated: the collator first sorts the batch by ascending
  token length, so for token lengths 2, 5, 3 the lengths come out as 3, 4, 6 and not as
  3, 6, 4.
\<close>

theorem collate_fn_order_counterexample:
  "map (\<lambda>x. length (token_ids x)) ex_meld = [2, 5, 3]
   \<and> returned_lengths (collate_fn ex_meld) = Some [3, 4, 6]
   \<and> returned_lengths (collate_fn ex_meld) \<noteq> Some [3, 6, 4]"
  by (simp add: returned_lengths_def collate_fn_def ex_meld_def sort_key_def pad_sequence_1d_def
      pad_sequence_def copy_rows_def max_len_def zero_row_def size0_def Let_def upt_rec
      numeral_2_eq_2 numeral_3_eq_3)

text \<open>
  Claim C3, amended. For a batch of three samples with token-sequence lengths 2, 5 and
  3, in this order, whenever the collator returns: the length tensor is 3, 4, 6 (each
  length plus one for the prepended start marker, in ascending order, as the sorted
  batch has them); the row sums of the validity mask are the same values, position \<open>t\<close>
  of a row being valid exactly if \<open>t\<close> is less than the row's length plus one; and the
  text batch has three rows of 6 positions. The collator does return when the video
  features share one width and the audio features share one width.
\<close>

theorem collate_fn_lengths:
  assumes "map (\<lambda>x. length (token_ids x)) batch = [2, 5, 3]"
  shows "(\<forall>out. collate_fn batch = Inr out \<longrightarrow>
            batch_lengths out = [3, 4, 6]
          \<and> map row_sum (batch_mask out) = [3, 4, 6]
          \<and> length (batch_text out) = 3
          \<and> (\<forall>row \<in> set (batch_text out). length row = 6)
          \<and> (\<forall>b < 3. \<forall>t < 6. batch_mask out ! b ! t \<longleftrightarrow> t < batch_lengths out ! b))
       \<and> ((\<forall>x \<in> set batch.
              ncols (video_features x) = ncols (video_features (hd batch))
            \<and> ncols (audio_features x) = ncols (audio_features (hd batch))) \<longrightarrow>
            (\<exists>out. collate_fn batch = Inr out))"
proof -
  obtain x1 x2 x3 where batch: "batch = [x1, x2, x3]"
    and l: "length (token_ids x1) = 2" "length (token_ids x2) = 5" "length (token_ids x3) = 3"
    using assms by (rule three_samples)
  have part1: "batch_lengths out = [3, 4, 6]
          \<and> map row_sum (batch_mask out) = [3, 4, 6]
          \<and> length (batch_text out) = 3
          \<and> (\<forall>row \<in> set (batch_text out). length row = 6)
          \<and> (\<forall>b < 3. \<forall>t < 6. batch_mask out ! b ! t \<longleftrightarrow> t < batch_lengths out ! b)"
    if run: "collate_fn batch = Inr out" for out
  proof -
    note r = collate_fn_three [OF l run [unfolded batch]]
    have len: "batch_lengths out = [3, 4, 6]"
      and mask: "batch_mask out = [[True, True, True, False, False, False],
                           [True, True, True, True, False, False],
                           [True, True, True, True, True, True]]"
      and tx: "batch_text out = [0 # token_ids x1 @ [0, 0, 0], 0 # token_ids x3 @ [0, 0], 0 # token_ids x2]"
      and gen: "batch_mask out = map (\<lambda>n. map (\<lambda>t. t < n) [0..<6]) (batch_lengths out)"
      using r by blast+
    have sums: "map row_sum (batch_mask out) = [3, 4, 6]"
      by (simp add: mask row_sum_def)
    have rows6: "\<forall>row \<in> set (batch_text out). length row = 6"
      using l by (simp add: tx)
    have valid: "\<forall>b < 3. \<forall>t < 6. batch_mask out ! b ! t \<longleftrightarrow> t < batch_lengths out ! b"
    proof (intro allI impI)
      fix b t :: nat
      assume "b < 3" and "t < 6"
      have lb: "b < length (batch_lengths out)"
        using \<open>b < 3\<close> by (simp add: len)
      have "batch_mask out ! b = map (\<lambda>t. t < batch_lengths out ! b) [0..<6]"
        using lb by (subst gen) (rule nth_map)
      then show "batch_mask out ! b ! t \<longleftrightarrow> t < batch_lengths out ! b"
        using \<open>t < 6\<close> by simp
    qed
    show ?thesis
      using len sums tx rows6 valid by simp
  qed
  have part2: "\<exists>out. collate_fn batch = Inr out"
    if "\<forall>x \<in> set batch.
              ncols (video_features x) = ncols (video_features (hd batch))
            \<and> ncols (audio_features x) = ncols (audio_features (hd batch))"
    using that unfolding batch by (intro collate_fn_total_three [OF l]) simp
  show ?thesis
    using part1 part2 by blast
qed

theorem collate_fn_lengths_witness:
  "map (\<lambda>x. length (token_ids x)) ex_meld = [2, 5, 3]
   \<and> (\<exists>out. collate_fn ex_meld = Inr out
         \<and> batch_lengths out = [3, 4, 6]
         \<and> map row_sum (batch_mask out) = [3, 4, 6]
         \<and> length (hd (batch_text out)) = 6)"
proof -
  have h: "map (\<lambda>x. length (token_ids x)) ex_meld = [2, 5, 3]"
    by (simp add: ex_meld_def)
  have u: "\<forall>x \<in> set ex_meld.
              ncols (video_features x) = ncols (video_features (hd ex_meld))
            \<and> ncols (audio_features x) = ncols (audio_features (hd ex_meld))"
    by (simp add: ex_meld_def)
  obtain out where out: "collate_fn ex_meld = Inr out"
    using collate_fn_lengths [OF h] u by blast
  then have f: "batch_lengths out = [3, 4, 6]" "map row_sum (batch_mask out) = [3, 4, 6]"
    "length (batch_text out) = 3" "\<forall>row \<in> set (batch_text out). length row = 6"
    using collate_fn_lengths [OF h] by blast+
  have g: "length (hd (batch_text out)) = 6"
    using f(3,4) by (cases "batch_text out") auto
  have "collate_fn ex_meld = Inr out
         \<and> batch_lengths out = [3, 4, 6]
         \<and> map row_sum (batch_mask out) = [3, 4, 6]
         \<and> length (hd (batch_text out)) = 6"
    using out f(1,2) g by (intro conjI)
  then have ex: "\<exists>out. collate_fn ex_meld = Inr out
         \<and> batch_lengths out = [3, 4, 6]
         \<and> map row_sum (batch_mask out) = [3, 4, 6]
         \<and> length (hd (batch_text out)) = 6"
    by (rule exI)
  show ?thesis
    by (rule conjI [OF h ex])
qed



end
